theory Spec2Isabelle
  imports Complex_Main
begin

section \<open>Values, errors and small helpers\<close>

text \<open>
  Python floats and numpy scalars are modelled as exact reals. Every raise of the
  source is a value \<open>Inl e\<close> of the result type; a function that raises returns
  no state (the partly mutated object the exception leaves behind is not modelled).
\<close>

datatype error =
    KeyError string
  | IndexError
  | ZeroDivisionError
  | ValueError
  | NameError string

type_synonym vec3 = "real \<times> real \<times> real"
type_synonym quat = "real \<times> real \<times> real \<times> real"

definition ebind :: "error + 'a \<Rightarrow> ('a \<Rightarrow> error + 'b) \<Rightarrow> error + 'b" where
  "ebind m f = (case m of Inl e \<Rightarrow> Inl e | Inr x \<Rightarrow> f x)"

text \<open>\<open>d[k]\<close> on a Python dict.\<close>

definition lookup :: "(string \<rightharpoonup> real) \<Rightarrow> string \<Rightarrow> error + real" where
  "lookup d k = (case d k of None \<Rightarrow> Inl (KeyError k) | Some v \<Rightarrow> Inr v)"

text \<open>
  \<open>a / b\<close> with a divisor that is a program variable. A Python float raises
  ZeroDivisionError on a zero divisor and a numpy scalar yields inf or nan with a
  RuntimeWarning; in both cases the quotient is not a number, which is the error branch.
\<close>

definition fdiv :: "real \<Rightarrow> real \<Rightarrow> error + real" where
  "fdiv a b = (if b = 0 then Inl ZeroDivisionError else Inr (a / b))"

text \<open>\<open>np.linalg.norm\<close> of a three-element list.\<close>

definition norm3 :: "real \<Rightarrow> real \<Rightarrow> real \<Rightarrow> real" where
  "norm3 x y z = sqrt (x\<^sup>2 + y\<^sup>2 + z\<^sup>2)"

text \<open>\<open>math.atan2\<close> (signed zeros apart).\<close>

definition atan2 :: "real \<Rightarrow> real \<Rightarrow> real" where
  "atan2 y x =
     (if 0 < x then arctan (y / x)
      else if x < 0 then (if 0 \<le> y then arctan (y / x) + pi else arctan (y / x) - pi)
      else if 0 < y then pi / 2
      else if y < 0 then - (pi / 2)
      else 0)"

text \<open>\<open>math.asin\<close> raises ValueError outside \<open>[-1, 1]\<close>.\<close>

definition asin :: "real \<Rightarrow> error + real" where
  "asin x = (if - 1 \<le> x \<and> x \<le> 1 then Inr (arcsin x) else Inl ValueError)"

text \<open>
  Modelled from the spec: \<open>lib/constants.py\<close> is not among the sources; \<open>d2r\<close> converts
  degrees to radians (the spec's envelope of 25 degrees is \<open>25 * d2r\<close> in the code).
\<close>

definition d2r :: real where
  "d2r = pi / 180"

text \<open>\<open>A @ state\<close>: numpy raises ValueError unless every row is as long as the vector.\<close>

definition matvec :: "real list list \<Rightarrow> real list \<Rightarrow> error + real list" where
  "matvec a x =
     (if list_all (\<lambda>row. length row = length x) a
      then Inr (map (\<lambda>row. sum_list (map2 (*) row x)) a)
      else Inl ValueError)"

section \<open>Quaternions\<close>

text \<open>
  Modelled from the spec: \<open>lib/quaternion.py\<close> is not among the sources. The spec's
  update step 6 builds a rotation from three angles, composes it with the current
  orientation quaternion and extracts Euler angles; step 7 rotates a body-frame vector
  into the NED frame. The functions below are the usual aerospace (yaw, pitch, roll)
  conventions for a scalar-first quaternion.
\<close>

definition quat_norm :: "quat \<Rightarrow> real" where
  "quat_norm q = (case q of (q0, q1, q2, q3) \<Rightarrow> sqrt (q0\<^sup>2 + q1\<^sup>2 + q2\<^sup>2 + q3\<^sup>2))"

definition eul2quat :: "real \<Rightarrow> real \<Rightarrow> real \<Rightarrow> quat" where
  "eul2quat phi theta psi =
     (let sphi = sin (phi / 2); cphi = cos (phi / 2);
          sthe = sin (theta / 2); cthe = cos (theta / 2);
          spsi = sin (psi / 2); cpsi = cos (psi / 2)
      in (cpsi * cthe * cphi + spsi * sthe * sphi,
          cpsi * cthe * sphi - spsi * sthe * cphi,
          cpsi * sthe * cphi + spsi * cthe * sphi,
          spsi * cthe * cphi - cpsi * sthe * sphi))"

text \<open>
  \<open>quaternion.multiply\<close>, the one call that \<open>update\<close> makes between building the rotation
  and extracting the angles: the Hamilton product, the composition of two rotations.
  \<open>update\<close> shows no renormalization step and none is placed in this function.
\<close>

definition quat_multiply :: "quat \<Rightarrow> quat \<Rightarrow> quat" where
  "quat_multiply a b =
     (case a of (a0, a1, a2, a3) \<Rightarrow> case b of (b0, b1, b2, b3) \<Rightarrow>
        (a0 * b0 - a1 * b1 - a2 * b2 - a3 * b3,
         a0 * b1 + a1 * b0 + a2 * b3 - a3 * b2,
         a0 * b2 - a1 * b3 + a2 * b0 + a3 * b1,
         a0 * b3 + a1 * b2 - a2 * b1 + a3 * b0))"

text \<open>
  The argument of the inverse sine lies in \<open>[-1, 1]\<close> for a quaternion of norm 1;
  \<open>arcsin\<close> is used directly.
\<close>

definition quat2eul :: "quat \<Rightarrow> vec3" where
  "quat2eul q =
     (case q of (q0, q1, q2, q3) \<Rightarrow>
        (atan2 (2 * (q2 * q3 + q0 * q1)) (1 - 2 * (q1\<^sup>2 + q2\<^sup>2)),
         arcsin (- 2 * (q1 * q3 - q0 * q2)),
         atan2 (2 * (q1 * q2 + q0 * q3)) (1 - 2 * (q2\<^sup>2 + q3\<^sup>2))))"

text \<open>NED to body (\<open>transform\<close>) and body to NED (\<open>backTransform\<close>).\<close>

definition transform :: "quat \<Rightarrow> vec3 \<Rightarrow> vec3" where
  "transform q v =
     (case q of (q0, q1, q2, q3) \<Rightarrow> case v of (x, y, z) \<Rightarrow>
        ((1 - 2 * (q2\<^sup>2 + q3\<^sup>2)) * x + 2 * (q1 * q2 + q0 * q3) * y + 2 * (q1 * q3 - q0 * q2) * z,
         2 * (q1 * q2 - q0 * q3) * x + (1 - 2 * (q1\<^sup>2 + q3\<^sup>2)) * y + 2 * (q2 * q3 + q0 * q1) * z,
         2 * (q1 * q3 + q0 * q2) * x + 2 * (q2 * q3 - q0 * q1) * y + (1 - 2 * (q1\<^sup>2 + q2\<^sup>2)) * z))"

definition backTransform :: "quat \<Rightarrow> vec3 \<Rightarrow> vec3" where
  "backTransform q v =
     (case q of (q0, q1, q2, q3) \<Rightarrow> case v of (x, y, z) \<Rightarrow>
        ((1 - 2 * (q2\<^sup>2 + q3\<^sup>2)) * x + 2 * (q1 * q2 - q0 * q3) * y + 2 * (q1 * q3 + q0 * q2) * z,
         2 * (q1 * q2 + q0 * q3) * x + (1 - 2 * (q1\<^sup>2 + q3\<^sup>2)) * y + 2 * (q2 * q3 - q0 * q1) * z,
         2 * (q1 * q3 - q0 * q2) * x + 2 * (q2 * q3 + q0 * q1) * y + (1 - 2 * (q1\<^sup>2 + q2\<^sup>2)) * z))"

section \<open>The model file and the state manager\<close>

text \<open>
  One entry of the model file's \<open>parameters\<close> list: name, type, the four statistics
  and the optional noise spectrum, a list of (frequency, amplitude) pairs.
\<close>

record param =
  pname :: string
  ptype :: string
  pmin :: real
  pmax :: real
  pmedian :: real
  pstd :: real
  pnoise :: "(real \<times> real) list option"

record model_file =
  mf_dt :: real
  mf_parameters :: "param list"
  mf_A :: "real list"

text \<open>
  Modelled from the spec: \<open>lib/state_mgr.py\<close> (class StateManager) is not among the
  sources. The record holds the channels that \<open>simulator.py\<close> and
  \<open>build_full_model.py\<close> set or read; the spec says the setters store their arguments
  verbatim and perform no cross-validation. The last five fields are derived quantities
  (force coefficients, gravity and acceleration in the body frame) for which the spec gives
  no formula: they are held as stored channels.
\<close>

record state_manager =
  sm_ind_states :: "string list"
  sm_dep_states :: "string list"
  sm_dt :: real
  sm_time :: real
  sm_airspeed_mps :: real
  sm_throttle :: real
  sm_aileron :: real
  sm_elevator :: real
  sm_rudder :: real
  sm_alpha :: real
  sm_beta :: real
  sm_gyros :: vec3
  sm_accels :: vec3
  sm_v_body :: vec3
  sm_orientation :: vec3
  sm_v_ned :: vec3
  sm_wind :: vec3
  sm_lift :: real
  sm_drag :: real
  sm_thrust :: real
  sm_body_g :: vec3
  sm_body_accel :: vec3

definition set_state_names :: "string list \<Rightarrow> string list \<Rightarrow> state_manager \<Rightarrow> state_manager" where
  "set_state_names ind dep sm = sm\<lparr>sm_ind_states := ind, sm_dep_states := dep\<rparr>"

definition set_dt :: "real \<Rightarrow> state_manager \<Rightarrow> state_manager" where
  "set_dt d sm = sm\<lparr>sm_dt := d\<rparr>"

definition set_time :: "real \<Rightarrow> state_manager \<Rightarrow> state_manager" where
  "set_time t sm = sm\<lparr>sm_time := t\<rparr>"

definition set_airdata :: "real \<Rightarrow> state_manager \<Rightarrow> state_manager" where
  "set_airdata v sm = sm\<lparr>sm_airspeed_mps := v\<rparr>"

definition set_throttle :: "real \<Rightarrow> state_manager \<Rightarrow> state_manager" where
  "set_throttle v sm = sm\<lparr>sm_throttle := v\<rparr>"

definition set_flight_surfaces :: "real \<Rightarrow> real \<Rightarrow> real \<Rightarrow> state_manager \<Rightarrow> state_manager" where
  "set_flight_surfaces ail ele rud sm =
     sm\<lparr>sm_aileron := ail, sm_elevator := ele, sm_rudder := rud\<rparr>"

definition set_wind :: "real \<Rightarrow> real \<Rightarrow> state_manager \<Rightarrow> state_manager" where
  "set_wind wn we sm = (case sm_wind sm of (_, _, wd) \<Rightarrow> sm\<lparr>sm_wind := (wn, we, wd)\<rparr>)"

definition set_ned_velocity ::
  "real \<Rightarrow> real \<Rightarrow> real \<Rightarrow> real \<Rightarrow> real \<Rightarrow> real \<Rightarrow> state_manager \<Rightarrow> state_manager" where
  "set_ned_velocity vn ve vd wn we wd sm = sm\<lparr>sm_v_ned := (vn, ve, vd), sm_wind := (wn, we, wd)\<rparr>"

definition set_body_velocity :: "real \<Rightarrow> real \<Rightarrow> real \<Rightarrow> state_manager \<Rightarrow> state_manager" where
  "set_body_velocity vx vy vz sm = sm\<lparr>sm_v_body := (vx, vy, vz)\<rparr>"

definition set_orientation :: "real \<Rightarrow> real \<Rightarrow> real \<Rightarrow> state_manager \<Rightarrow> state_manager" where
  "set_orientation phi theta psi sm = sm\<lparr>sm_orientation := (phi, theta, psi)\<rparr>"

definition set_gyros :: "real \<Rightarrow> real \<Rightarrow> real \<Rightarrow> state_manager \<Rightarrow> state_manager" where
  "set_gyros gp gq gr sm = sm\<lparr>sm_gyros := (gp, gq, gr)\<rparr>"

definition set_accels :: "real \<Rightarrow> real \<Rightarrow> real \<Rightarrow> state_manager \<Rightarrow> state_manager" where
  "set_accels x y z sm = sm\<lparr>sm_accels := (x, y, z)\<rparr>"

text \<open>
  Modelled from the spec: dynamic pressure is \<open>0.5 * rho * airspeed\<^sup>2\<close> with \<open>rho\<close> fixed
  at sea-level density. \<open>update\<close> reads \<open>state_mgr.qbar\<close> directly after \<open>set_airdata\<close>,
  so the value read is that of the airspeed just stored.
\<close>

definition rho :: real where
  "rho = 1.225"

definition qbar :: "state_manager \<Rightarrow> real" where
  "qbar sm = 0.5 * rho * (sm_airspeed_mps sm)\<^sup>2"

text \<open>
  Modelled from the spec: \<open>compute_body_frame_values\<close> derives the body-frame velocity
  (recomputed from the NED velocity and the wind only when asked to), and from it
  \<open>alpha = atan2(body_z_vel, body_x_vel)\<close> and \<open>beta = atan2(-body_y_vel, body_x_vel)\<close>.
  The gravity vector and the force coefficients, for which the spec gives no formula,
  are left as stored.
\<close>

definition compute_body_frame_values :: "bool \<Rightarrow> state_manager \<Rightarrow> state_manager" where
  "compute_body_frame_values compute_body_vel sm =
     (let v_body =
            (if compute_body_vel
             then (case sm_orientation sm of (phi, theta, psi) \<Rightarrow>
                   case sm_v_ned sm of (vn, ve, vd) \<Rightarrow>
                   case sm_wind sm of (wn, we, wd) \<Rightarrow>
                     transform (eul2quat phi theta psi) (vn - wn, ve - we, vd - wd))
             else sm_v_body sm)
      in case v_body of (vx, vy, vz) \<Rightarrow>
           sm\<lparr>sm_v_body := v_body, sm_alpha := atan2 vz vx, sm_beta := atan2 (- vy) vx\<rparr>)"

text \<open>
  Modelled from the spec: the value of one named state. Control deflections and the sines
  of the flow angles are scaled by \<open>qbar\<close>, with \<open>abs(...)\<close> variants; airspeed, body
  rates, velocities and accelerations are emitted as they are. The names are those that
  \<open>build_full_model.py\<close> lists and \<open>simulator.py\<close> reads back.
\<close>

definition state_value :: "state_manager \<Rightarrow> string \<Rightarrow> error + real" where
  "state_value sm field =
     (if field = ''aileron'' then Inr (sm_aileron sm * qbar sm)
      else if field = ''abs(aileron)'' then Inr (\<bar>sm_aileron sm\<bar> * qbar sm)
      else if field = ''elevator'' then Inr (sm_elevator sm * qbar sm)
      else if field = ''rudder'' then Inr (sm_rudder sm * qbar sm)
      else if field = ''abs(rudder)'' then Inr (\<bar>sm_rudder sm\<bar> * qbar sm)
      else if field = ''throttle'' then Inr (sm_throttle sm)
      else if field = ''lift'' then Inr (sm_lift sm)
      else if field = ''drag'' then Inr (sm_drag sm)
      else if field = ''thrust'' then Inr (sm_thrust sm)
      else if field = ''bgx'' then Inr (fst (sm_body_g sm))
      else if field = ''bgy'' then Inr (fst (snd (sm_body_g sm)))
      else if field = ''bgz'' then Inr (snd (snd (sm_body_g sm)))
      else if field = ''bax'' then Inr (fst (sm_body_accel sm))
      else if field = ''bay'' then Inr (fst (snd (sm_body_accel sm)))
      else if field = ''baz'' then Inr (snd (snd (sm_body_accel sm)))
      else if field = ''ax'' then Inr (fst (sm_accels sm))
      else if field = ''ay'' then Inr (fst (snd (sm_accels sm)))
      else if field = ''az'' then Inr (snd (snd (sm_accels sm)))
      else if field = ''bvx'' then Inr (fst (sm_v_body sm))
      else if field = ''bvy'' then Inr (fst (snd (sm_v_body sm)))
      else if field = ''bvz'' then Inr (snd (snd (sm_v_body sm)))
      else if field = ''airspeed'' then Inr (sm_airspeed_mps sm)
      else if field = ''sin(alpha)'' then Inr (sin (sm_alpha sm) * qbar sm)
      else if field = ''sin(beta)'' then Inr (sin (sm_beta sm) * qbar sm)
      else if field = ''abs(sin(beta))'' then Inr (\<bar>sin (sm_beta sm)\<bar> * qbar sm)
      else if field = ''p'' then Inr (fst (sm_gyros sm))
      else if field = ''q'' then Inr (fst (snd (sm_gyros sm)))
      else if field = ''r'' then Inr (snd (snd (sm_gyros sm)))
      else Inl (KeyError field))"

fun state_values :: "state_manager \<Rightarrow> string list \<Rightarrow> error + real list" where
  "state_values sm [] = Inr []"
| "state_values sm (f # fs) =
     ebind (state_value sm f) (\<lambda>v. ebind (state_values sm fs) (\<lambda>vs. Inr (v # vs)))"

text \<open>
  Modelled from the spec: the canonical state vector, the independent block followed by
  the dependent block. The spec says that the \<open>min\<close> and \<open>max\<close> of a parameter are hard
  clamps during simulation; \<open>simulator.py\<close> applies none itself and hands the parameter
  list to this function, so the clamp is placed here, entry by entry.
\<close>

fun clamp_to_params :: "param list \<Rightarrow> real list \<Rightarrow> real list" where
  "clamp_to_params (p # ps) (v # vs) = max (pmin p) (min (pmax p) v) # clamp_to_params ps vs"
| "clamp_to_params ps vs = vs"

definition gen_state_vector :: "state_manager \<Rightarrow> param list \<Rightarrow> error + real list" where
  "gen_state_vector sm ps =
     ebind (state_values sm (sm_ind_states sm @ sm_dep_states sm))
       (\<lambda>vs. Inr (clamp_to_params ps vs))"

text \<open>
  Modelled from the spec: \<open>state2dict\<close> and \<open>dep2dict\<close> turn a numeric vector back into a
  name-keyed mapping, over all state names and over the dependent names.
\<close>

definition state2dict :: "state_manager \<Rightarrow> real list \<Rightarrow> (string \<rightharpoonup> real)" where
  "state2dict sm vec = map_of (zip (sm_ind_states sm @ sm_dep_states sm) vec)"

definition dep2dict :: "state_manager \<Rightarrow> real list \<Rightarrow> (string \<rightharpoonup> real)" where
  "dep2dict sm vec = map_of (zip (sm_dep_states sm) vec)"

section \<open>The simulator\<close>

text \<open>
  The attributes of class Simulator. \<open>A_matrix\<close> is \<open>self.A\<close> as a list of rows,
  \<open>rate_p\<close>, \<open>rate_q\<close>, \<open>rate_r\<close> are \<open>self.p\<close>, \<open>self.q\<close>, \<open>self.r\<close> and
  \<open>acc_x\<close>, \<open>acc_y\<close>, \<open>acc_z\<close> are \<open>self.ax\<close>, \<open>self.ay\<close>, \<open>self.az\<close>. \<open>trand\<close> is
  \<open>None\<close> until the first noise injection. Each element of \<open>data\<close> is one trajectory
  sample, the list that \<open>update\<close> appends.
\<close>

record simulator =
  params :: "param list"
  A_matrix :: "real list list"
  dt :: real
  trand :: "real list option"
  state_mgr :: state_manager
  airspeed_mps :: real
  pos_ned :: vec3
  vel_ned :: vec3
  phi_rad :: real
  the_rad :: real
  psi_rad :: real
  ned2body :: quat
  rate_p :: real
  rate_q :: real
  rate_r :: real
  acc_x :: real
  acc_y :: real
  acc_z :: real
  bvx :: real
  bvy :: real
  bvz :: real
  alpha :: real
  beta :: real
  time :: real
  data :: "real list list"
  trim_airspeed_mps :: real

subsection \<open>load\<close>

text \<open>
  \<open>np.array(xs).reshape(rows, cols)\<close> on a flat list: numpy raises ValueError unless
  the list has exactly \<open>rows * cols\<close> elements, and fills the rows in row-major order.
\<close>

definition reshape :: "nat \<Rightarrow> nat \<Rightarrow> real list \<Rightarrow> error + real list list" where
  "reshape rows cols xs =
     (if length xs = rows * cols
      then Inr (map (\<lambda>i. take cols (drop (i * cols) xs)) [0..<rows])
      else Inl ValueError)"

text \<open>The counting loop of \<open>load\<close>: one row for every parameter typed "dependent".\<close>

fun count_dependent :: "param list \<Rightarrow> nat \<Rightarrow> nat" where
  "count_dependent [] rows = rows"
| "count_dependent (p # ps) rows =
     (if ptype p = ''dependent'' then count_dependent ps (rows + 1)
      else count_dependent ps rows)"

text \<open>
  The naming loop of \<open>load\<close>: a parameter typed "independent" is an independent state
  and every other parameter is a dependent state.
\<close>

fun split_states :: "param list \<Rightarrow> string list \<Rightarrow> string list \<Rightarrow> string list \<times> string list" where
  "split_states [] ind dep = (ind, dep)"
| "split_states (p # ps) ind dep =
     (if ptype p = ''independent'' then split_states ps (ind @ [pname p]) dep
      else split_states ps ind (dep @ [pname p]))"

definition load :: "model_file \<Rightarrow> simulator \<Rightarrow> error + simulator" where
  "load m s =
     (let ps = mf_parameters m;
          cols = length ps;
          rows = count_dependent ps 0
      in ebind (reshape rows cols (mf_A m)) (\<lambda>a.
           let (ind_states, dep_states) = split_states (mf_parameters m) [] []
           in Inr (s\<lparr>params := ps, dt := mf_dt m, A_matrix := a,
                     state_mgr := set_dt (mf_dt m)
                       (set_state_names ind_states dep_states (state_mgr s))\<rparr>)))"

subsection \<open>reset\<close>

definition reset :: "simulator \<Rightarrow> simulator" where
  "reset s =
     (let initial_airspeed_mps = 10;
          sm1 = set_airdata initial_airspeed_mps (state_mgr s);
          sm2 = set_throttle 0.5 sm1;
          sm3 = set_flight_surfaces 0 (- 0.1) 0 sm2;
          sm4 = set_ned_velocity initial_airspeed_mps 0 0 0 0 0 sm3;
          sm5 = set_body_velocity initial_airspeed_mps 0 0 sm4;
          sm6 = set_orientation 0 0 0 sm5;
          sm7 = set_gyros 0 0 0 sm6;
          sm8 = set_accels 0 0 0 sm7;
          sm9 = set_time 0 sm8
      in s\<lparr>state_mgr := sm9, airspeed_mps := 0, pos_ned := (0, 0, 0),
            vel_ned := (initial_airspeed_mps, 0, 0),
            phi_rad := 0, the_rad := 0, psi_rad := 0, ned2body := eul2quat 0 0 0,
            rate_p := 0, rate_q := 0, rate_r := 0, acc_x := 0, acc_y := 0, acc_z := 0,
            bvx := 0, bvy := 0, bvz := 0, time := 0, data := []\<rparr>)"

subsection \<open>add_noise\<close>

text \<open>
  \<open>np.random.rand(n)\<close> is modelled by a source \<open>rnd\<close> of numbers in \<open>[0, 1)\<close>: the
  draw of \<open>n\<close> numbers is \<open>rnd 0, ..., rnd (n - 1)\<close>, scaled by \<open>2 * pi\<close>.
\<close>

definition draw_phases :: "(nat \<Rightarrow> real) \<Rightarrow> nat \<Rightarrow> real list" where
  "draw_phases rnd n = map (\<lambda>k. rnd k * 2 * pi) [0..<n]"

text \<open>
  The inner loop over one parameter's sinusoids: \<open>j\<close> is the index that
  \<open>enumerate\<close> supplies, \<open>acc\<close> the running \<open>sum\<close>; \<open>self.trand[j]\<close> raises IndexError
  when \<open>j\<close> is beyond the phase array.
\<close>

fun noise_sum :: "real list \<Rightarrow> real \<Rightarrow> nat \<Rightarrow> (real \<times> real) list \<Rightarrow> real \<Rightarrow> error + real" where
  "noise_sum ph t j [] acc = Inr acc"
| "noise_sum ph t j (pt # pts) acc =
     (if j < length ph
      then noise_sum ph t (Suc j) pts (acc + sin (ph ! j + t * 2 * pi * fst pt) * snd pt)
      else Inl IndexError)"

text \<open>
  The outer loop over \<open>range(len(next))\<close>, carrying the vector \<open>next\<close> and \<open>self.trand\<close>.
  \<open>self.params[i]\<close> raises IndexError beyond the parameter list.
\<close>

fun add_noise_loop ::
  "param list \<Rightarrow> real \<Rightarrow> (nat \<Rightarrow> real) \<Rightarrow> nat list \<Rightarrow> real list \<times> real list option
   \<Rightarrow> error + (real list \<times> real list option)" where
  "add_noise_loop ps t rnd [] st = Inr st"
| "add_noise_loop ps t rnd (i # is) (nxt, tr) =
     (if length ps \<le> i then Inl IndexError
      else case pnoise (ps ! i) of
        None \<Rightarrow> add_noise_loop ps t rnd is (nxt, tr)
      | Some pts \<Rightarrow>
          (let ph = (case tr of None \<Rightarrow> draw_phases rnd (length pts) | Some ph \<Rightarrow> ph)
           in ebind (noise_sum ph t 0 pts 0)
                (\<lambda>sm. add_noise_loop ps t rnd is (nxt[i := nxt ! i + sm], Some ph))))"

definition add_noise ::
  "param list \<Rightarrow> real \<Rightarrow> (nat \<Rightarrow> real) \<Rightarrow> real list option \<Rightarrow> real list
   \<Rightarrow> error + (real list \<times> real list option)" where
  "add_noise ps t rnd tr nxt = add_noise_loop ps t rnd [0..<length nxt] (nxt, tr)"

subsection \<open>update\<close>

text \<open>Lines 177 to 182: the scalar airspeed of the step.\<close>

definition resolve_airspeed :: "(string \<rightharpoonup> real) \<Rightarrow> error + real" where
  "resolve_airspeed result =
     (if result ''airspeed'' \<noteq> None then lookup result ''airspeed''
      else ebind (lookup result ''bvx'') (\<lambda>x.
           ebind (lookup result ''bvy'') (\<lambda>y.
           ebind (lookup result ''bvz'') (\<lambda>z. Inr (norm3 x y z)))))"

text \<open>Lines 187 to 207: body velocity from the acceleration outputs.\<close>

definition accel_branch :: "(string \<rightharpoonup> real) \<Rightarrow> simulator \<Rightarrow> error + simulator" where
  "accel_branch result s =
     ebind (lookup result ''bax'') (\<lambda>bax. let x1 = bvx s + bax * dt s in
     ebind (lookup result ''bay'') (\<lambda>bay. let y1 = bvy s + bay * dt s in
     ebind (lookup result ''baz'') (\<lambda>baz. let z1 = bvz s + baz * dt s;
                                             x2 = (if x1 < 0.1 then 0.1 else x1) in
     ebind (fdiv y1 x2) (\<lambda>ry. let y2 = (if \<bar>ry\<bar> > 0.1 then sgn y1 * \<bar>x2\<bar> * 0.1 else y1) in
     ebind (fdiv z1 x2) (\<lambda>rz. let z2 = (if \<bar>rz\<bar> > 0.1 then sgn z1 * \<bar>x2\<bar> * 0.1 else z1) in
     ebind (fdiv (airspeed_mps s) (norm3 x2 y2 z2)) (\<lambda>k.
       let v0 = x2 * k; v1 = y2 * k; v2 = z2 * k
       in Inr (s\<lparr>bvx := v0, bvy := v1, bvz := v2,
                 state_mgr := set_body_velocity v0 v1 v2 (state_mgr s),
                 alpha := atan2 v2 v0, beta := atan2 (- v1) v0\<rparr>)))))))"

text \<open>Lines 209 to 214: body velocity taken from the velocity outputs.\<close>

definition velocity_branch :: "(string \<rightharpoonup> real) \<Rightarrow> simulator \<Rightarrow> error + simulator" where
  "velocity_branch result s =
     ebind (lookup result ''bvx'') (\<lambda>x.
     ebind (lookup result ''bvy'') (\<lambda>y.
     ebind (lookup result ''bvz'') (\<lambda>z.
       Inr (s\<lparr>bvx := x, bvy := y, bvz := z,
               state_mgr := set_body_velocity x y z (state_mgr s),
               alpha := atan2 z x, beta := atan2 (- y) x\<rparr>))))"

text \<open>Lines 216 to 243: body velocity from the sine outputs, which are scaled by \<open>qbar\<close>.\<close>

definition trig_branch :: "(string \<rightharpoonup> real) \<Rightarrow> real \<Rightarrow> simulator \<Rightarrow> error + simulator" where
  "trig_branch result qb s =
     ebind (lookup result ''sin(alpha)'') (\<lambda>ra.
     ebind (fdiv ra qb) (\<lambda>s_alpha0.
     ebind (lookup result ''sin(beta)'') (\<lambda>rb.
     ebind (fdiv rb qb) (\<lambda>s_beta0.
       let s_alpha1 = (if s_alpha0 > 1 then 1 else s_alpha0);
           s_alpha = (if s_alpha1 < - 1 then - 1 else s_alpha1);
           s_beta1 = (if s_beta0 > 1 then 1 else s_beta0);
           s_beta = (if s_beta1 < - 1 then - 1 else s_beta1) in
     ebind (asin s_alpha) (\<lambda>a0.
     ebind (asin s_beta) (\<lambda>b0.
       let max_angle = 25 * d2r;
           a1 = (if a0 > max_angle then max_angle else a0);
           a2 = (if a1 < - max_angle then - max_angle else a1);
           b1 = (if b0 > max_angle then max_angle else b0);
           b2 = (if b1 < - max_angle then - max_angle else b1);
           x = cos a2 * airspeed_mps s;
           y = sin b2 * airspeed_mps s;
           z = sin a2 * airspeed_mps s
       in Inr (s\<lparr>bvx := x, bvy := y, bvz := z,
                 state_mgr := set_body_velocity x y z
                   ((state_mgr s)\<lparr>sm_alpha := a2, sm_beta := b2\<rparr>)\<rparr>)))))))"

text \<open>Lines 186, 208 and 215: the \<open>if\<close>/\<open>elif\<close>/\<open>elif\<close> chain, with no final \<open>else\<close>.\<close>

definition resolve_velocity :: "(string \<rightharpoonup> real) \<Rightarrow> real \<Rightarrow> simulator \<Rightarrow> error + simulator" where
  "resolve_velocity result qb s =
     (if result ''bax'' \<noteq> None \<and> result ''airspeed'' \<noteq> None then accel_branch result s
      else if result ''bvx'' \<noteq> None then velocity_branch result s
      else if result ''sin(alpha)'' \<noteq> None then trig_branch result qb s
      else Inr s)"

text \<open>Lines 245 to 253: angular rates, and accelerations when the model has them.\<close>

definition update_rates :: "(string \<rightharpoonup> real) \<Rightarrow> simulator \<Rightarrow> error + simulator" where
  "update_rates result s =
     ebind (lookup result ''p'') (\<lambda>rp.
     ebind (lookup result ''q'') (\<lambda>rq.
     ebind (lookup result ''r'') (\<lambda>rr.
       let s1 = s\<lparr>rate_p := rp, rate_q := rq, rate_r := rr,
                   state_mgr := set_gyros rp rq rr (state_mgr s)\<rparr>
       in if result ''ax'' \<noteq> None
          then ebind (lookup result ''ax'') (\<lambda>x.
               ebind (lookup result ''ay'') (\<lambda>y.
               ebind (lookup result ''az'') (\<lambda>z.
                 Inr (s1\<lparr>acc_x := x, acc_y := y, acc_z := z,
                          state_mgr := set_accels x y z (state_mgr s1)\<rparr>))))
          else Inr s1)))"

text \<open>Lines 255 to 261: attitude.\<close>

definition update_attitude :: "simulator \<Rightarrow> simulator" where
  "update_attitude s =
     (let rot_body = eul2quat (rate_p s * dt s) (rate_q s * dt s) (rate_r s * dt s);
          nb = quat_multiply (ned2body s) rot_body
      in case quat2eul nb of (phi, theta, psi) \<Rightarrow>
           s\<lparr>ned2body := nb, phi_rad := phi, the_rad := theta, psi_rad := psi,
             state_mgr := set_orientation phi theta psi (state_mgr s)\<rparr>)"

text \<open>Lines 263 to 274: derived values, NED velocity and position.\<close>

definition update_position :: "simulator \<Rightarrow> simulator" where
  "update_position s =
     (let sm1 = compute_body_frame_values False (state_mgr s)
      in case backTransform (ned2body s) (bvx s, bvy s, bvz s) of (vn, ve, vd) \<Rightarrow>
         case pos_ned s of (pn, pe, pd) \<Rightarrow>
           s\<lparr>state_mgr := set_ned_velocity vn ve vd 0 0 0 sm1,
             vel_ned := (vn, ve, vd),
             pos_ned := (pn + vn * dt s, pe + ve * dt s, pd + vd * dt s)\<rparr>)"

text \<open>Lines 277 to 290: the trajectory sample, then the clock.\<close>

definition store_sample :: "simulator \<Rightarrow> simulator" where
  "store_sample s =
     (case pos_ned s of (pn, pe, pd) \<Rightarrow> case vel_ned s of (vn, ve, vd) \<Rightarrow>
        s\<lparr>data := data s @
              [[time s, airspeed_mps s,
                sm_throttle (state_mgr s), sm_aileron (state_mgr s),
                sm_elevator (state_mgr s), sm_rudder (state_mgr s),
                phi_rad s, the_rad s, psi_rad s,
                sm_alpha (state_mgr s), sm_beta (state_mgr s),
                rate_p s, rate_q s, rate_r s] @ [pn, pe, pd] @ [vn, ve, vd]],
          time := time s + dt s\<rparr>)"

text \<open>
  One step. \<open>gsv\<close> is the state manager's \<open>gen_state_vector\<close>, whose per-name transforms
  the sources do not contain: \<open>update\<close> is modelled for any such function, and
  \<open>gen_state_vector\<close> above is the instance used on concrete inputs. The dictionary
  \<open>input\<close> of line 157 is never read and is left out.
\<close>

definition update ::
  "(state_manager \<Rightarrow> param list \<Rightarrow> error + real list) \<Rightarrow> (nat \<Rightarrow> real) \<Rightarrow> simulator
   \<Rightarrow> error + simulator" where
  "update gsv rnd s =
     ebind (gsv (state_mgr s) (params s)) (\<lambda>state.
     ebind (matvec (A_matrix s) state) (\<lambda>next0.
     ebind (add_noise (params s) (time s) rnd (trand s) next0) (\<lambda>(nxt, tr).
       let result = dep2dict (state_mgr s) nxt in
     ebind (resolve_airspeed result) (\<lambda>asp.
       let s1 = s\<lparr>trand := tr, airspeed_mps := asp,
                   state_mgr := set_airdata asp (state_mgr s)\<rparr>;
           qb = qbar (state_mgr s1) in
     ebind (resolve_velocity result qb s1) (\<lambda>s2.
     ebind (update_rates result s2) (\<lambda>s3.
       Inr (store_sample (update_position (update_attitude s3)))))))))"


subsection \<open>trim\<close>

text \<open>
  The residual function handed to the solver. Every call overwrites the state-manager
  channels it reads from \<open>xk\<close> and from the target airspeed, so its value depends on the
  simulator only through the channels it leaves alone; the state manager it leaves behind
  is not returned.
\<close>

definition trim_error ::
  "(state_manager \<Rightarrow> param list \<Rightarrow> error + real list) \<Rightarrow> simulator \<Rightarrow> real list
   \<Rightarrow> error + real list" where
  "trim_error gsv s xk =
     (if length xk < 6 then Inl IndexError
      else
        let sm1 = set_throttle (xk ! 0) (state_mgr s);
            sm2 = set_flight_surfaces (xk ! 1) (xk ! 2) (xk ! 3) sm1;
            sm3 = set_orientation (xk ! 4) (xk ! 5) 0 sm2;
            sm4 = sm3\<lparr>sm_alpha := xk ! 5\<rparr>;
            sm5 = set_airdata (trim_airspeed_mps s) sm4;
            sm6 = set_wind 0 0 sm5;
            sm7 = set_gyros 0 0 0 sm6;
            sm8 = set_ned_velocity (trim_airspeed_mps s) 0 0 0 0 0 sm7;
            sm9 = compute_body_frame_values False sm8 in
        ebind (gsv sm9 (params s)) (\<lambda>state.
        ebind (matvec (A_matrix s) state) (\<lambda>nxt.
          let result = state2dict sm9 nxt in
        ebind (lookup result ''airspeed'') (\<lambda>asi.
          let next_asi = (if asi < 0 then 0 else asi) in
        ebind (lookup result ''thrust'') (\<lambda>thrust.
        ebind (lookup result ''drag'') (\<lambda>drag.
        ebind (lookup result ''bay'') (\<lambda>bay.
        ebind (lookup result ''p'') (\<lambda>rp.
        ebind (lookup result ''q'') (\<lambda>rq.
        ebind (lookup result ''r'') (\<lambda>rr.
          Inr [trim_airspeed_mps s - next_asi, thrust - drag, bay, rp, rq, rr]))))))))))"

text \<open>
  What \<open>scipy.optimize.least_squares\<close> hands back: the final iterate \<open>x\<close> and the
  termination status (0 when the evaluation budget ran out before convergence, positive
  when a convergence test passed). The solver itself is a parameter: it receives the
  residual function and the initial point, and it raises only what the residual function
  raises.
\<close>

record ls_result =
  ls_x :: "real list"
  ls_status :: int
  ls_success :: bool

text \<open>
  \<open>trim\<close> prints the result and five of its components and has no \<open>return\<close> statement.
  The model returns the solver result that was printed, the labelled lines in order, and
  the value the caller receives, which is Python's \<open>None\<close>.
\<close>

definition trim ::
  "(state_manager \<Rightarrow> param list \<Rightarrow> error + real list)
   \<Rightarrow> ((real list \<Rightarrow> error + real list) \<Rightarrow> real list \<Rightarrow> error + ls_result)
   \<Rightarrow> real \<Rightarrow> simulator
   \<Rightarrow> error + (ls_result \<times> (string \<times> real) list \<times> real list option)" where
  "trim gsv least_squares airspeed s =
     (let s1 = s\<lparr>trim_airspeed_mps := airspeed\<rparr>;
          initial = [0.5, 0.0, 0.0, 0.0, 0.0, 0.08]
      in ebind (least_squares (trim_error gsv s1) initial) (\<lambda>res.
           if length (ls_x res) < 5 then Inl IndexError
           else Inr (res,
                     [(''throttle:'', ls_x res ! 0),
                      (''aileron:'', ls_x res ! 1),
                      (''elevator:'', ls_x res ! 2),
                      (''rudder:'', ls_x res ! 3),
                      (''phi:'', ls_x res ! 3),
                      (''theta:'', ls_x res ! 4)],
                     None)))"

subsection \<open>Construction\<close>

text \<open>
  Modelled from the spec: the state manager as its constructor leaves it. The sources do
  not contain the constructor; every channel starts at zero and no state names are set.
\<close>

definition new_state_manager :: state_manager where
  "new_state_manager =
     \<lparr>sm_ind_states = [], sm_dep_states = [], sm_dt = 0, sm_time = 0, sm_airspeed_mps = 0,
      sm_throttle = 0, sm_aileron = 0, sm_elevator = 0, sm_rudder = 0,
      sm_alpha = 0, sm_beta = 0, sm_gyros = (0, 0, 0), sm_accels = (0, 0, 0),
      sm_v_body = (0, 0, 0), sm_orientation = (0, 0, 0), sm_v_ned = (0, 0, 0),
      sm_wind = (0, 0, 0), sm_lift = 0, sm_drag = 0, sm_thrust = 0,
      sm_body_g = (0, 0, 0), sm_body_accel = (0, 0, 0)\<rparr>"

text \<open>
  \<open>Simulator()\<close>: the constructor sets \<open>A\<close>, \<open>dt\<close> and \<open>trand\<close> to \<open>None\<close>, creates the
  state manager and calls \<open>reset\<close>. An empty matrix and parameter list and a zero \<open>dt\<close>
  stand for the attributes that only \<open>load\<close> fills in.
\<close>

definition blank_simulator :: simulator where
  "blank_simulator =
     \<lparr>params = [], A_matrix = [], dt = 0, trand = None, state_mgr = new_state_manager,
      airspeed_mps = 0, pos_ned = (0, 0, 0), vel_ned = (0, 0, 0),
      phi_rad = 0, the_rad = 0, psi_rad = 0, ned2body = (1, 0, 0, 0),
      rate_p = 0, rate_q = 0, rate_r = 0, acc_x = 0, acc_y = 0, acc_z = 0,
      bvx = 0, bvy = 0, bvz = 0, alpha = 0, beta = 0, time = 0, data = [],
      trim_airspeed_mps = 0\<rparr>"

definition new_simulator :: simulator where
  "new_simulator = reset blank_simulator"

section \<open>The fitting script\<close>

text \<open>
  One time-ordered record of the flight log, a dictionary with optional groups. The
  loader and the iterator that yields the records are collaborators outside the sources;
  the list of records stands for the iteration.
\<close>

record imu_rec =
  imu_time :: real
  imu_p :: real
  imu_q :: real
  imu_r :: real

record act_rec =
  act_throttle :: real
  act_aileron :: real
  act_elevator :: real
  act_rudder :: real

record air_rec =
  air_airspeed :: real
  air_pitot_scale :: "real option"
  air_wind :: "(real \<times> real) option"

record filter_rec =
  nav_phi :: real
  nav_the :: real
  nav_psi :: real
  nav_vn :: real
  nav_ve :: real
  nav_vd :: real
  nav_bias :: "vec3 option"

record flight_record =
  rec_imu :: "imu_rec option"
  rec_act :: "act_rec option"
  rec_air :: "air_rec option"
  rec_filter :: "filter_rec option"
  rec_gps :: "unit option"

definition record_empty :: "flight_record \<Rightarrow> bool" where
  "record_empty r \<longleftrightarrow>
     rec_imu r = None \<and> rec_act r = None \<and> rec_air r = None \<and> rec_filter r = None
     \<and> rec_gps r = None"

text \<open>
  Modelled from the spec: \<open>lib/constants.py\<close> is not among the sources; \<open>kt2mps\<close>
  converts knots to metres per second.
\<close>

definition kt2mps :: real where
  "kt2mps = 0.514444"

subsection \<open>The dt-estimation pass\<close>

text \<open>
  Lines 68 to 78: \<open>prev\<close> is \<open>last_time\<close> on entry, \<open>acc\<close> is \<open>dt_data\<close>. A record with an
  \<open>imu\<close> group is not empty, so the test \<open>len(record)\<close> adds nothing to \<open>"imu" in record\<close>.
\<close>

fun dt_loop :: "flight_record list \<Rightarrow> real option \<Rightarrow> real list \<Rightarrow> real list" where
  "dt_loop [] prev acc = acc"
| "dt_loop (r # rs) prev acc =
     (case rec_imu r of
        None \<Rightarrow> dt_loop rs prev acc
      | Some imupt \<Rightarrow>
          (let last_time = (case prev of None \<Rightarrow> imu_time imupt | Some t \<Rightarrow> t)
           in dt_loop rs (Some (imu_time imupt)) (acc @ [imu_time imupt - last_time])))"

text \<open>\<open>np.median\<close>; the median of no data is nan, here \<open>None\<close>.\<close>

definition median :: "real list \<Rightarrow> real option" where
  "median xs =
     (let ys = sort xs; n = length ys
      in if n = 0 then None
         else if odd n then Some (ys ! (n div 2))
         else Some ((ys ! (n div 2 - 1) + ys ! (n div 2)) / 2))"

text \<open>\<open>float("%.4f" % x)\<close>: four decimals (ties are rounded up here).\<close>

definition round4 :: "real \<Rightarrow> real" where
  "round4 x = real_of_int (round (x * 10000)) / 10000"

definition estimate_dt :: "flight_record list \<Rightarrow> real option" where
  "estimate_dt recs = map_option round4 (median (dt_loop recs None []))"

subsection \<open>The training pass\<close>

text \<open>
  The variables that live across iterations of the second loop: the state manager, the
  last \<open>filter\<close> group (\<open>navpt\<close>, empty at first), the wind components \<open>wn\<close>, \<open>we\<close>,
  \<open>wd\<close> (unbound until the first \<open>air\<close> group) and the training set. The list \<open>coeff\<close>
  feeds the plots only and is left out.
\<close>

record trainer =
  t_state_mgr :: state_manager
  navpt :: "filter_rec option"
  wind_ned :: "vec3 option"
  traindata :: "real list list"

text \<open>Lines 101 to 140: the setters that one record drives.\<close>

definition feed_record :: "flight_record \<Rightarrow> trainer \<Rightarrow> error + trainer" where
  "feed_record r t =
     (let t1 = (case rec_imu r of
                  None \<Rightarrow> t
                | Some imupt \<Rightarrow>
                    (let sm1 = set_time (imu_time imupt) (t_state_mgr t);
                         rates = (case navpt t of
                                    None \<Rightarrow> (imu_p imupt, imu_q imupt, imu_r imupt)
                                  | Some nav \<Rightarrow>
                                      (case nav_bias nav of
                                         None \<Rightarrow> (imu_p imupt, imu_q imupt, imu_r imupt)
                                       | Some (p_bias, q_bias, r_bias) \<Rightarrow>
                                           (imu_p imupt - p_bias, imu_q imupt - q_bias,
                                            imu_r imupt - r_bias)))
                     in case rates of (gp, gq, gr) \<Rightarrow>
                          t\<lparr>t_state_mgr := set_gyros gp gq gr sm1\<rparr>));
          t2 = (case rec_act r of
                  None \<Rightarrow> t1
                | Some actpt \<Rightarrow>
                    t1\<lparr>t_state_mgr :=
                         set_flight_surfaces (act_aileron actpt) (act_elevator actpt)
                           (act_rudder actpt)
                           (set_throttle (act_throttle actpt) (t_state_mgr t1))\<rparr>);
          t3 = (case rec_air r of
                  None \<Rightarrow> t2
                | Some airpt \<Rightarrow>
                    (let asi0 = air_airspeed airpt * kt2mps;
                         asi_mps = (case air_pitot_scale airpt of
                                      None \<Rightarrow> asi0 | Some k \<Rightarrow> asi0 * k);
                         w = (case air_wind airpt of
                                Some (wind_dir, wind_speed) \<Rightarrow>
                                  (let wind_psi = 0.5 * pi - wind_dir * d2r;
                                       wind_mps = wind_speed * kt2mps
                                   in (sin wind_psi * wind_mps, cos wind_psi * wind_mps, 0))
                              | None \<Rightarrow> (0, 0, 0))
                     in t2\<lparr>t_state_mgr := set_airdata asi_mps (t_state_mgr t2),
                           wind_ned := Some w\<rparr>))
      in case rec_filter r of
           None \<Rightarrow> Inr t3
         | Some nav \<Rightarrow>
             (case wind_ned t3 of
                None \<Rightarrow> Inl (NameError ''wn'')
              | Some (wn, we, wd) \<Rightarrow>
                  Inr (t3\<lparr>navpt := Some nav,
                          t_state_mgr :=
                            set_ned_velocity (nav_vn nav) (nav_ve nav) (nav_vd nav) wn we wd
                              (set_orientation (nav_phi nav) (nav_the nav) (nav_psi nav)
                                 (t_state_mgr t3))\<rparr>)))"

text \<open>
  Lines 98 to 147, one iteration. \<open>is_flying\<close> is the state manager's gate, whose
  thresholds the sources do not contain, and \<open>gsv\<close> is its \<open>gen_state_vector\<close>: the
  loop is modelled for any gate and any vector function.
\<close>

definition train_step ::
  "(state_manager \<Rightarrow> bool) \<Rightarrow> (state_manager \<Rightarrow> error + real list) \<Rightarrow> flight_record
   \<Rightarrow> trainer \<Rightarrow> error + trainer" where
  "train_step is_flying gsv r t =
     (if record_empty r then Inr t
      else ebind (feed_record r t) (\<lambda>t1.
             if is_flying (t_state_mgr t1)
             then (let sm1 = compute_body_frame_values True (t_state_mgr t1)
                   in ebind (gsv sm1) (\<lambda>state.
                        Inr (t1\<lparr>t_state_mgr := sm1, traindata := traindata t1 @ [state]\<rparr>)))
             else Inr t1))"

fun training_pass ::
  "(state_manager \<Rightarrow> bool) \<Rightarrow> (state_manager \<Rightarrow> error + real list) \<Rightarrow> flight_record list
   \<Rightarrow> trainer \<Rightarrow> error + trainer" where
  "training_pass is_flying gsv [] t = Inr t"
| "training_pass is_flying gsv (r # rs) t =
     ebind (train_step is_flying gsv r t) (training_pass is_flying gsv rs)"

definition new_trainer :: trainer where
  "new_trainer =
     \<lparr>t_state_mgr = new_state_manager, navpt = None, wind_ned = None, traindata = []\<rparr>"

section \<open>Functions that state the claims\<close>


text \<open>
  The noise that one parameter receives when sinusoid \<open>j\<close> takes entry \<open>j\<close> of the phase
  array \<open>ph\<close>.
\<close>

definition phase_sum :: "real list \<Rightarrow> real \<Rightarrow> (real \<times> real) list \<Rightarrow> real" where
  "phase_sum ph t pts =
     sum_list (map (\<lambda>j. sin (ph ! j + t * 2 * pi * fst (pts ! j)) * snd (pts ! j)) [0..<length pts])"

text \<open>
  The phase array in force during a pass of \<open>add_noise\<close> over the indices \<open>is\<close>: the
  stored one, or else a fresh draw as long as the noise list of the first index in \<open>is\<close>
  whose parameter has noise.
\<close>

definition phase_array ::
  "param list \<Rightarrow> (nat \<Rightarrow> real) \<Rightarrow> real list option \<Rightarrow> nat list \<Rightarrow> real list option" where
  "phase_array ps rnd tr is =
     (case tr of
        Some ph \<Rightarrow> Some ph
      | None \<Rightarrow>
          (case filter (\<lambda>i. pnoise (ps ! i) \<noteq> None) is of
             [] \<Rightarrow> None
           | i # _ \<Rightarrow> map_option (\<lambda>pts. draw_phases rnd (length pts)) (pnoise (ps ! i))))"

text \<open>What the pass adds at index \<open>i\<close>.\<close>

definition add_one :: "param list \<Rightarrow> real \<Rightarrow> real list \<Rightarrow> nat \<Rightarrow> real list \<Rightarrow> real list" where
  "add_one ps t ph i v =
     (case pnoise (ps ! i) of None \<Rightarrow> v | Some pts \<Rightarrow> v[i := v ! i + phase_sum ph t pts])"

section \<open>Concrete inputs\<close>

text \<open>Model files and collaborators on which the theorems below are evaluated.\<close>

definition mkparam :: "string \<Rightarrow> string \<Rightarrow> real \<Rightarrow> real \<Rightarrow> param" where
  "mkparam n t lo hi =
     \<lparr>pname = n, ptype = t, pmin = lo, pmax = hi, pmedian = 0, pstd = 1, pnoise = None\<rparr>"

definition tiny_model :: "real list \<Rightarrow> model_file" where
  "tiny_model a =
     \<lparr>mf_dt = 0.01,
      mf_parameters = [mkparam ''aileron'' ''independent'' (- 1) 1,
                       mkparam ''p'' ''dependent'' (- 1) 1],
      mf_A = a\<rparr>"


definition step_rnd :: "nat \<Rightarrow> real" where
  "step_rnd k = (if k = 0 then 1 / 4 else 0)"


definition zero_trig_model :: model_file where
  "zero_trig_model =
     \<lparr>mf_dt = 0.01,
      mf_parameters = [mkparam ''airspeed'' ''dependent'' 0 30,
                       mkparam ''sin(alpha)'' ''dependent'' (- 100) 100,
                       mkparam ''sin(beta)'' ''dependent'' (- 100) 100,
                       mkparam ''p'' ''dependent'' (- 1) 1,
                       mkparam ''q'' ''dependent'' (- 1) 1,
                       mkparam ''r'' ''dependent'' (- 1) 1],
      mf_A = [0, 0, 0, 0, 0, 0,  0, 0, 0, 0, 0, 0,  0, 0, 0, 0, 0, 0,
              0, 0, 0, 0, 0, 0,  0, 0, 0, 0, 0, 0,  0, 0, 0, 0, 0, 0]\<rparr>"

definition neg_airspeed_model :: model_file where
  "neg_airspeed_model =
     \<lparr>mf_dt = 0.01,
      mf_parameters = [mkparam ''airspeed'' ''dependent'' 0 30,
                       mkparam ''p'' ''dependent'' (- 1) 1,
                       mkparam ''q'' ''dependent'' (- 1) 1,
                       mkparam ''r'' ''dependent'' (- 1) 1],
      mf_A = [- 1, 0, 0, 0,  0, 0, 0, 0,  0, 0, 0, 0,  0, 0, 0, 0]\<rparr>"

definition roll_model :: model_file where
  "roll_model =
     \<lparr>mf_dt = 0.01,
      mf_parameters = [mkparam ''airspeed'' ''dependent'' 0 30,
                       mkparam ''p'' ''dependent'' (- 1) 1,
                       mkparam ''q'' ''dependent'' (- 1) 1,
                       mkparam ''r'' ''dependent'' (- 1) 1],
      mf_A = [1, 0, 0, 0,  0.1, 0, 0, 0,  0, 0, 0, 0,  0, 0, 0, 0]\<rparr>"


text \<open>
  The guards of the acceleration branch in the spec's words: a floor on the forward
  velocity, and a cone that bounds the ratio of a lateral or vertical component to the
  forward one.
\<close>

definition floor_forward :: "real \<Rightarrow> real" where
  "floor_forward x = max 0.1 x"

definition cone_clamp :: "real \<Rightarrow> real \<Rightarrow> real" where
  "cone_clamp x y = (if \<bar>y\<bar> > 0.1 * x then sgn y * (0.1 * x) else y)"

text \<open>The clamps of the trig branch: to \<open>[-1, 1]\<close> and to the envelope of 25 degrees.\<close>

definition clamp_unit :: "real \<Rightarrow> real" where
  "clamp_unit v = max (- 1) (min 1 v)"

definition clamp_angle :: "real \<Rightarrow> real" where
  "clamp_angle a = max (- (25 * d2r)) (min (25 * d2r) a)"

text \<open>Predicted dependent states on which the velocity resolution is evaluated.\<close>

definition accel_outputs :: "string \<rightharpoonup> real" where
  "accel_outputs = map_of [(''airspeed'', 10), (''bax'', 1), (''bay'', 0), (''baz'', 0),
                           (''p'', 0), (''q'', 0), (''r'', 0)]"

definition velocity_outputs :: "string \<rightharpoonup> real" where
  "velocity_outputs = map_of [(''bax'', 1), (''bay'', 0), (''baz'', 0),
                              (''bvx'', 4), (''bvy'', 3), (''bvz'', 0),
                              (''p'', 0), (''q'', 0), (''r'', 0)]"

definition trig_outputs :: "string \<rightharpoonup> real" where
  "trig_outputs = map_of [(''airspeed'', 10), (''sin(alpha)'', 0), (''sin(beta)'', 0),
                          (''p'', 0), (''q'', 0), (''r'', 0)]"

definition accel_no_airspeed_model :: model_file where
  "accel_no_airspeed_model =
     \<lparr>mf_dt = 0.01,
      mf_parameters = [mkparam ''bax'' ''dependent'' (- 100) 100,
                       mkparam ''bay'' ''dependent'' (- 100) 100,
                       mkparam ''baz'' ''dependent'' (- 100) 100,
                       mkparam ''bvx'' ''dependent'' 0 30,
                       mkparam ''bvy'' ''dependent'' (- 30) 30,
                       mkparam ''bvz'' ''dependent'' (- 30) 30,
                       mkparam ''p'' ''dependent'' (- 1) 1,
                       mkparam ''q'' ''dependent'' (- 1) 1,
                       mkparam ''r'' ''dependent'' (- 1) 1],
      mf_A = [0, 0, 0, 0.1, 0, 0, 0, 0, 0,
              0, 0, 0, 0, 0, 0, 0, 0, 0,
              0, 0, 0, 0, 0, 0, 0, 0, 0,
              0, 0, 0, 0.4, 0, 0, 0, 0, 0,
              0, 0, 0, 0.3, 0, 0, 0, 0, 0,
              0, 0, 0, 0, 0, 0, 0, 0, 0,
              0, 0, 0, 0, 0, 0, 0, 0, 0,
              0, 0, 0, 0, 0, 0, 0, 0, 0,
              0, 0, 0, 0, 0, 0, 0, 0, 0]\<rparr>"

definition staged_simulator :: simulator where
  "staged_simulator = new_simulator\<lparr>dt := 0.01, airspeed_mps := 10\<rparr>"

text \<open>Lines 33 to 49 and 85 of the script: the state names and the trainer it starts with.\<close>

definition independent_states :: "string list" where
  "independent_states =
     [''aileron'', ''abs(aileron)'', ''elevator'', ''rudder'', ''abs(rudder)'',
      ''lift'', ''drag'', ''thrust'', ''bgx'', ''bgy'', ''bgz'', ''bay'']"

definition dependent_states :: "string list" where
  "dependent_states =
     [''airspeed'', ''sin(alpha)'', ''sin(beta)'', ''abs(sin(beta))'', ''p'', ''q'', ''r'']"

definition start_trainer :: "real \<Rightarrow> trainer" where
  "start_trainer imu_dt =
     new_trainer\<lparr>t_state_mgr :=
       set_dt imu_dt (set_state_names independent_states dependent_states new_state_manager)\<rparr>"

text \<open>\<open>gen_state_vector()\<close> as the script calls it, with no parameter list.\<close>

definition gen_state_vector_plain :: "state_manager \<Rightarrow> error + real list" where
  "gen_state_vector_plain sm = gen_state_vector sm []"

text \<open>
  Modelled from the spec: \<open>is_flying\<close> is a gate on an airspeed threshold; the threshold
  is not given and is a parameter here.
\<close>

definition airspeed_gate :: "real \<Rightarrow> state_manager \<Rightarrow> bool" where
  "airspeed_gate threshold sm \<longleftrightarrow> threshold \<le> sm_airspeed_mps sm"

definition imu_only :: "real \<Rightarrow> flight_record" where
  "imu_only t =
     \<lparr>rec_imu = Some \<lparr>imu_time = t, imu_p = 0, imu_q = 0, imu_r = 0\<rparr>,
      rec_act = None, rec_air = None, rec_filter = None, rec_gps = None\<rparr>"

definition ground_log :: "flight_record list" where
  "ground_log = [imu_only 0, imu_only 0.01]"

definition air_only :: "real \<Rightarrow> flight_record" where
  "air_only kt =
     \<lparr>rec_imu = None, rec_act = None,
      rec_air = Some \<lparr>air_airspeed = kt, air_pitot_scale = None, air_wind = None\<rparr>,
      rec_filter = None, rec_gps = None\<rparr>"

text \<open>A gate that no sample passes: the aircraft never leaves the ground.\<close>

definition grounded :: "state_manager \<Rightarrow> bool" where
  "grounded sm \<longleftrightarrow> False"

section \<open>Properties of load\<close>

lemma count_dependent_filter:
  "count_dependent ps n = n + length (filter (\<lambda>p. ptype p = ''dependent'') ps)"
  by (induction ps arbitrary: n) auto

lemma reshape_ok:
  assumes "reshape rows cols xs = Inr a"
  shows "length a = rows"
    and "\<And>row. row \<in> set a \<Longrightarrow> length row = cols"
    and "\<And>i j. i < rows \<Longrightarrow> j < cols \<Longrightarrow> a ! i ! j = xs ! (i * cols + j)"
proof -
  have len: "length xs = rows * cols"
    and a: "a = map (\<lambda>i. take cols (drop (i * cols) xs)) [0..<rows]"
    using assms by (auto simp: reshape_def split: if_splits)
  show "length a = rows" by (simp add: a)
  show "length row = cols" if "row \<in> set a" for row
  proof -
    from that obtain i where i: "i < rows" and row: "row = take cols (drop (i * cols) xs)"
      by (auto simp: a)
    have "i * cols + cols \<le> rows * cols"
      using i by (metis Suc_leI mult_Suc mult_le_mono1 add.commute)
    then show ?thesis by (simp add: row len)
  qed
  show "a ! i ! j = xs ! (i * cols + j)" if "i < rows" "j < cols" for i j
  proof -
    have "i * cols + cols \<le> rows * cols"
      using that(1) by (metis Suc_leI mult_Suc mult_le_mono1 add.commute)
    then show ?thesis using that by (simp add: a len)
  qed
qed

text \<open>
  Claim C7. \<open>load\<close> raises (ValueError from the reshape, no simulator returned) exactly
  when the flattened \<open>A\<close> of the file does not have \<open>rows * cols\<close> elements, where
  \<open>rows\<close> is the number of parameters typed "dependent" and \<open>cols\<close> the number of
  parameters. Otherwise it returns a simulator whose matrix has \<open>rows\<close> rows of
  \<open>cols\<close> entries each, filled row-major, so that column \<open>j\<close> belongs to the \<open>j\<close>-th
  parameter of the file, and whose parameter list is the file's list in the file's order.
\<close>

theorem load_validates_shape:
  "(length (mf_A m) \<noteq>
      length (filter (\<lambda>p. ptype p = ''dependent'') (mf_parameters m)) * length (mf_parameters m)
    \<longrightarrow> load m s = Inl ValueError)
   \<and> (length (mf_A m) =
      length (filter (\<lambda>p. ptype p = ''dependent'') (mf_parameters m)) * length (mf_parameters m)
    \<longrightarrow> (\<exists>s'. load m s = Inr s'
          \<and> params s' = mf_parameters m
          \<and> length (A_matrix s') = length (filter (\<lambda>p. ptype p = ''dependent'') (mf_parameters m))
          \<and> (\<forall>row \<in> set (A_matrix s'). length row = length (mf_parameters m))
          \<and> (\<forall>i < length (A_matrix s'). \<forall>j < length (mf_parameters m).
                A_matrix s' ! i ! j = mf_A m ! (i * length (mf_parameters m) + j))))"
proof (intro conjI impI)
  assume "length (mf_A m) \<noteq>
      length (filter (\<lambda>p. ptype p = ''dependent'') (mf_parameters m)) * length (mf_parameters m)"
  then show "load m s = Inl ValueError"
    by (simp add: load_def Let_def reshape_def ebind_def count_dependent_filter)
next
  let ?rows = "length (filter (\<lambda>p. ptype p = ''dependent'') (mf_parameters m))"
  let ?cols = "length (mf_parameters m)"
  assume len: "length (mf_A m) = ?rows * ?cols"
  then obtain a where a: "reshape ?rows ?cols (mf_A m) = Inr a"
    by (simp add: reshape_def)
  obtain ind dep where sp: "split_states (mf_parameters m) [] [] = (ind, dep)"
    by (cases "split_states (mf_parameters m) [] []")
  let ?s' = "s\<lparr>params := mf_parameters m, dt := mf_dt m, A_matrix := a,
               state_mgr := set_dt (mf_dt m) (set_state_names ind dep (state_mgr s))\<rparr>"
  have ld: "load m s = Inr ?s'"
    by (simp add: load_def Let_def ebind_def count_dependent_filter a sp)
  have "params ?s' = mf_parameters m" by simp
  moreover have "length (A_matrix ?s') = ?rows"
    using reshape_ok(1)[OF a] by simp
  moreover have "\<forall>row \<in> set (A_matrix ?s'). length row = ?cols"
    using reshape_ok(2)[OF a] by simp
  moreover have "\<forall>i < length (A_matrix ?s'). \<forall>j < ?cols.
      A_matrix ?s' ! i ! j = mf_A m ! (i * ?cols + j)"
    using reshape_ok(3)[OF a] reshape_ok(1)[OF a] by simp
  ultimately show "\<exists>s'. load m s = Inr s'
          \<and> params s' = mf_parameters m
          \<and> length (A_matrix s') = ?rows
          \<and> (\<forall>row \<in> set (A_matrix s'). length row = ?cols)
          \<and> (\<forall>i < length (A_matrix s'). \<forall>j < ?cols.
                A_matrix s' ! i ! j = mf_A m ! (i * ?cols + j))"
    using ld by blast
qed

theorem load_validates_shape_witness:
  "load (tiny_model [1, 2, 3]) new_simulator = Inl ValueError
   \<and> (\<exists>s'. load (tiny_model [1, 2]) new_simulator = Inr s'
          \<and> length (A_matrix s') = 1
          \<and> A_matrix s' ! 0 ! 0 = 1 \<and> A_matrix s' ! 0 ! 1 = 2)"
proof -
  have bad: "load (tiny_model [1, 2, 3]) new_simulator = Inl ValueError"
    using load_validates_shape[of "tiny_model [1, 2, 3]" new_simulator]
    by (simp add: tiny_model_def mkparam_def)
  obtain s' where s': "load (tiny_model [1, 2]) new_simulator = Inr s'"
      "length (A_matrix s') = 1"
      "\<forall>i < length (A_matrix s'). \<forall>j < 2. A_matrix s' ! i ! j = [1, 2] ! (i * 2 + j)"
    using load_validates_shape[of "tiny_model [1, 2]" new_simulator]
    by (auto simp: tiny_model_def mkparam_def)
  have "A_matrix s' ! 0 ! 0 = 1" "A_matrix s' ! 0 ! 1 = 2"
    using s'(2,3) by auto
  with bad s' show ?thesis by blast
qed

section \<open>Properties of add_noise\<close>



lemma phase_array_Some [simp]: "phase_array ps rnd (Some ph) is = Some ph"
  by (simp add: phase_array_def)




lemma add_one_length [simp]: "length (add_one ps t ph i v) = length v"
  by (simp add: add_one_def split: option.splits)




lemma fold_add_one_length [simp]: "length (fold (add_one ps t ph) is v) = length v"
  by (induction "is" arbitrary: v) simp_all


lemma length_draw_phases [simp]: "length (draw_phases rnd n) = n"
  by (simp add: draw_phases_def)







lemmas sm_defs = set_time_def set_airdata_def set_throttle_def set_flight_surfaces_def set_wind_def
  set_ned_velocity_def set_body_velocity_def set_orientation_def set_gyros_def set_accels_def
  set_dt_def set_state_names_def





lemma new_time: "time new_simulator = 0" "trand new_simulator = None"
  by (simp_all add: new_simulator_def blank_simulator_def reset_def Let_def)





section \<open>Properties of update\<close>

lemma update_unfold:
  assumes "gsv (state_mgr s) (params s) = Inr state"
    and "matvec (A_matrix s) state = Inr next0"
    and "add_noise (params s) (time s) rnd (trand s) next0 = Inr (nxt, tr)"
  shows "update gsv rnd s =
     ebind (resolve_airspeed (dep2dict (state_mgr s) nxt)) (\<lambda>asp.
     ebind (resolve_velocity (dep2dict (state_mgr s) nxt) (qbar (set_airdata asp (state_mgr s)))
              (s\<lparr>trand := tr, airspeed_mps := asp,
                 state_mgr := set_airdata asp (state_mgr s)\<rparr>)) (\<lambda>s2.
     ebind (update_rates (dep2dict (state_mgr s) nxt) s2) (\<lambda>s3.
       Inr (store_sample (update_position (update_attitude s3))))))"
  using assms by (simp add: update_def ebind_def Let_def)

lemma update_InrD:
  assumes "update gsv rnd s = Inr s'"
  obtains state next0 nxt tr asp s2 s3 where
    "gsv (state_mgr s) (params s) = Inr state"
    "matvec (A_matrix s) state = Inr next0"
    "add_noise (params s) (time s) rnd (trand s) next0 = Inr (nxt, tr)"
    "resolve_airspeed (dep2dict (state_mgr s) nxt) = Inr asp"
    "resolve_velocity (dep2dict (state_mgr s) nxt) (qbar (set_airdata asp (state_mgr s)))
              (s\<lparr>trand := tr, airspeed_mps := asp,
                 state_mgr := set_airdata asp (state_mgr s)\<rparr>) = Inr s2"
    "update_rates (dep2dict (state_mgr s) nxt) s2 = Inr s3"
    "s' = store_sample (update_position (update_attitude s3))"
  using assms
  by (auto simp: update_def ebind_def Let_def split: sum.splits prod.splits)

text \<open>What each stage of \<open>update\<close> leaves alone and what it writes.\<close>

lemma store_sample_fields [simp]:
  "airspeed_mps (store_sample s) = airspeed_mps s"
  "ned2body (store_sample s) = ned2body s"
  "state_mgr (store_sample s) = state_mgr s"
  "dt (store_sample s) = dt s"
  "params (store_sample s) = params s"
  "A_matrix (store_sample s) = A_matrix s"
  "bvx (store_sample s) = bvx s" "bvy (store_sample s) = bvy s" "bvz (store_sample s) = bvz s"
  "alpha (store_sample s) = alpha s" "beta (store_sample s) = beta s"
  "rate_p (store_sample s) = rate_p s" "rate_q (store_sample s) = rate_q s"
  "rate_r (store_sample s) = rate_r s"
  by (simp_all add: store_sample_def split: prod.splits)

lemma store_sample_data:
  "\<exists>smp. data (store_sample s) = data s @ [smp] \<and> length smp = 20
      \<and> smp ! 0 = time s \<and> smp ! 1 = airspeed_mps s
      \<and> smp ! 9 = sm_alpha (state_mgr s) \<and> smp ! 10 = sm_beta (state_mgr s)"
  by (simp add: store_sample_def split: prod.splits)

lemma update_position_fields [simp]:
  "airspeed_mps (update_position s) = airspeed_mps s"
  "ned2body (update_position s) = ned2body s"
  "dt (update_position s) = dt s"
  "params (update_position s) = params s"
  "A_matrix (update_position s) = A_matrix s"
  "bvx (update_position s) = bvx s" "bvy (update_position s) = bvy s" "bvz (update_position s) = bvz s"
  "alpha (update_position s) = alpha s" "beta (update_position s) = beta s"
  "rate_p (update_position s) = rate_p s" "rate_q (update_position s) = rate_q s"
  "rate_r (update_position s) = rate_r s"
  "data (update_position s) = data s" "time (update_position s) = time s"
  by (simp_all add: update_position_def Let_def split: prod.splits)

lemma update_position_angles:
  "sm_alpha (state_mgr (update_position s)) =
     atan2 (snd (snd (sm_v_body (state_mgr s)))) (fst (sm_v_body (state_mgr s)))"
  "sm_beta (state_mgr (update_position s)) =
     atan2 (- fst (snd (sm_v_body (state_mgr s)))) (fst (sm_v_body (state_mgr s)))"
  by (simp_all add: update_position_def Let_def compute_body_frame_values_def set_ned_velocity_def
      split: prod.splits)

lemma update_attitude_fields [simp]:
  "airspeed_mps (update_attitude s) = airspeed_mps s"
  "dt (update_attitude s) = dt s"
  "params (update_attitude s) = params s"
  "A_matrix (update_attitude s) = A_matrix s"
  "bvx (update_attitude s) = bvx s" "bvy (update_attitude s) = bvy s" "bvz (update_attitude s) = bvz s"
  "alpha (update_attitude s) = alpha s" "beta (update_attitude s) = beta s"
  "rate_p (update_attitude s) = rate_p s" "rate_q (update_attitude s) = rate_q s"
  "rate_r (update_attitude s) = rate_r s"
  "data (update_attitude s) = data s" "time (update_attitude s) = time s"
  "sm_v_body (state_mgr (update_attitude s)) = sm_v_body (state_mgr s)"
  "ned2body (update_attitude s) =
     quat_multiply (ned2body s) (eul2quat (rate_p s * dt s) (rate_q s * dt s) (rate_r s * dt s))"
  by (simp_all add: update_attitude_def Let_def set_orientation_def split: prod.splits)

lemma update_rates_fields:
  assumes "update_rates result s = Inr s'"
  shows "airspeed_mps s' = airspeed_mps s" "dt s' = dt s" "ned2body s' = ned2body s"
    "bvx s' = bvx s" "bvy s' = bvy s" "bvz s' = bvz s" "alpha s' = alpha s" "beta s' = beta s"
    "data s' = data s" "time s' = time s"
    "sm_v_body (state_mgr s') = sm_v_body (state_mgr s)"
    "result ''p'' = Some (rate_p s')" "result ''q'' = Some (rate_q s')"
    "result ''r'' = Some (rate_r s')"
  using assms
  by (auto simp: update_rates_def ebind_def lookup_def Let_def set_gyros_def set_accels_def
      split: option.splits if_splits)

lemma update_rates_error:
  "update_rates result s = Inl e \<Longrightarrow> \<exists>k. e = KeyError k"
  by (auto simp: update_rates_def ebind_def lookup_def Let_def split: option.splits if_splits)

lemma asin_clamped: "asin (if (if x > 1 then 1 else x) < - 1 then - 1 else (if x > 1 then 1 else x))
   = Inr (arcsin (max (- 1) (min 1 x)))"
  by (auto simp: asin_def max_def min_def)

lemma trig_branch_zero_division:
  assumes "result ''sin(alpha)'' = Some ra"
  shows "trig_branch result qb s = Inl ZeroDivisionError \<longleftrightarrow> qb = 0"
  using assms
  by (auto simp: trig_branch_def ebind_def lookup_def fdiv_def Let_def asin_def
      split: option.splits)

lemma qbar_zero_iff: "qbar (set_airdata asp sm) = 0 \<longleftrightarrow> asp = 0"
  by (simp add: qbar_def set_airdata_def rho_def)

text \<open>
  Claim C9. When \<open>update\<close> takes the trig branch (an airspeed output and a
  \<open>sin(alpha)\<close> output, no \<open>bax\<close> and no \<open>bvx\<close>), the outputs are divided by \<open>qbar\<close>
  with no guard: the step ends in the division's error branch exactly when the airspeed
  resolved in this step is zero, since \<open>qbar\<close> is zero exactly then.
\<close>

theorem update_trig_division_unguarded:
  assumes "gsv (state_mgr s) (params s) = Inr state"
    and "matvec (A_matrix s) state = Inr next0"
    and "add_noise (params s) (time s) rnd (trand s) next0 = Inr (nxt, tr)"
    and "dep2dict (state_mgr s) nxt ''airspeed'' = Some asp"
    and "dep2dict (state_mgr s) nxt ''bax'' = None"
    and "dep2dict (state_mgr s) nxt ''bvx'' = None"
    and "dep2dict (state_mgr s) nxt ''sin(alpha)'' = Some ra"
  shows "update gsv rnd s = Inl ZeroDivisionError \<longleftrightarrow> asp = 0"
proof -
  let ?result = "dep2dict (state_mgr s) nxt"
  let ?s1 = "s\<lparr>trand := tr, airspeed_mps := asp, state_mgr := set_airdata asp (state_mgr s)\<rparr>"
  let ?qb = "qbar (set_airdata asp (state_mgr s))"
  have ra: "resolve_airspeed ?result = Inr asp"
    using assms(4) by (simp add: resolve_airspeed_def lookup_def)
  have rv: "resolve_velocity ?result ?qb ?s1 = trig_branch ?result ?qb ?s1"
    using assms(5,6,7) by (simp add: resolve_velocity_def)
  have upd: "update gsv rnd s =
     ebind (trig_branch ?result ?qb ?s1) (\<lambda>s2.
     ebind (update_rates ?result s2) (\<lambda>s3.
       Inr (store_sample (update_position (update_attitude s3)))))"
    by (simp add: update_unfold[where gsv = gsv, OF assms(1,2,3)] ra rv ebind_def)
  show ?thesis
  proof
    assume zde: "update gsv rnd s = Inl ZeroDivisionError"
    show "asp = 0"
    proof (rule ccontr)
      assume "asp \<noteq> 0"
      then have nz: "trig_branch ?result ?qb ?s1 \<noteq> Inl ZeroDivisionError"
        using trig_branch_zero_division[where result = ?result and qb = ?qb and s = ?s1, OF assms(7)] by (simp add: qbar_zero_iff)
      show False
      proof (cases "trig_branch ?result ?qb ?s1")
        case (Inl e)
        then show False using zde nz by (simp add: upd ebind_def)
      next
        case (Inr s2)
        then show False
          using zde update_rates_error[of ?result s2]
          by (auto simp: upd ebind_def split: sum.splits)
      qed
    qed
  next
    assume "asp = 0"
    then have "trig_branch ?result ?qb ?s1 = Inl ZeroDivisionError"
      using trig_branch_zero_division[where result = ?result and qb = ?qb and s = ?s1, OF assms(7)] by (simp add: qbar_zero_iff)
    then show "update gsv rnd s = Inl ZeroDivisionError"
      by (simp add: upd ebind_def)
  qed
qed

lemma new_simulator_state_mgr:
  "state_mgr new_simulator =
     new_state_manager\<lparr>sm_airspeed_mps := 10, sm_throttle := 0.5, sm_elevator := - 0.1,
        sm_v_body := (10, 0, 0), sm_v_ned := (10, 0, 0)\<rparr>"
  by (simp add: new_simulator_def blank_simulator_def reset_def Let_def sm_defs new_state_manager_def)

lemma zero_trig_load:
  "load zero_trig_model new_simulator =
     Inr (new_simulator\<lparr>params := mf_parameters zero_trig_model, dt := 0.01,
            A_matrix := [[0, 0, 0, 0, 0, 0], [0, 0, 0, 0, 0, 0], [0, 0, 0, 0, 0, 0],
                         [0, 0, 0, 0, 0, 0], [0, 0, 0, 0, 0, 0], [0, 0, 0, 0, 0, 0]],
            state_mgr := (state_mgr new_simulator)\<lparr>sm_ind_states := [],
               sm_dep_states := [''airspeed'', ''sin(alpha)'', ''sin(beta)'', ''p'', ''q'', ''r''],
               sm_dt := 0.01\<rparr>\<rparr>)"
  by (simp add: load_def zero_trig_model_def mkparam_def reshape_def ebind_def
      Let_def sm_defs upt_conv_Cons)

lemma zero_trig_gsv:
  "gen_state_vector ((state_mgr new_simulator)\<lparr>sm_ind_states := [],
               sm_dep_states := [''airspeed'', ''sin(alpha)'', ''sin(beta)'', ''p'', ''q'', ''r''],
               sm_dt := 0.01\<rparr>)
      (mf_parameters zero_trig_model) = Inr [10, 0, 0, 0, 0, 0]"
  by (simp add: gen_state_vector_def state_value_def ebind_def new_simulator_state_mgr
      new_state_manager_def zero_trig_model_def mkparam_def)

theorem update_trig_division_unguarded_witness:
  "\<exists>s. load zero_trig_model new_simulator = Inr s
       \<and> update gen_state_vector step_rnd s = Inl ZeroDivisionError"
proof -
  let ?s = "new_simulator\<lparr>params := mf_parameters zero_trig_model, dt := 0.01,
            A_matrix := [[0, 0, 0, 0, 0, 0], [0, 0, 0, 0, 0, 0], [0, 0, 0, 0, 0, 0],
                         [0, 0, 0, 0, 0, 0], [0, 0, 0, 0, 0, 0], [0, 0, 0, 0, 0, 0]],
            state_mgr := (state_mgr new_simulator)\<lparr>sm_ind_states := [],
               sm_dep_states := [''airspeed'', ''sin(alpha)'', ''sin(beta)'', ''p'', ''q'', ''r''],
               sm_dt := 0.01\<rparr>\<rparr>"
  have g: "gen_state_vector (state_mgr ?s) (params ?s) = Inr [10, 0, 0, 0, 0, 0]"
    using zero_trig_gsv by simp
  have m: "matvec (A_matrix ?s) [10, 0, 0, 0, 0, 0] = Inr [0, 0, 0, 0, 0, 0]"
    by (simp add: matvec_def)
  have an: "add_noise (params ?s) (time ?s) step_rnd (trand ?s) [0, 0, 0, 0, 0, 0]
              = Inr ([0, 0, 0, 0, 0, 0], None)"
    by (simp add: add_noise_def zero_trig_model_def mkparam_def upt_conv_Cons new_time)
  have "update gen_state_vector step_rnd ?s = Inl ZeroDivisionError"
    using update_trig_division_unguarded[where gsv = gen_state_vector and s = ?s
        and asp = 0 and ra = 0, OF g m an]
    by (simp add: dep2dict_def)
  then show ?thesis using zero_trig_load by blast
qed

lemma update_rates_ok:
  assumes "result ''p'' = Some a" "result ''q'' = Some b" "result ''r'' = Some c"
    "result ''ax'' = None"
  shows "\<exists>s'. update_rates result s = Inr s'"
  using assms by (simp add: update_rates_def ebind_def lookup_def Let_def)

lemma resolve_velocity_none:
  assumes "result ''bax'' = None" "result ''bvx'' = None" "result ''sin(alpha)'' = None"
  shows "resolve_velocity result qb s = Inr s"
  using assms by (simp add: resolve_velocity_def)

lemma neg_airspeed_load:
  "load neg_airspeed_model new_simulator =
     Inr (new_simulator\<lparr>params := mf_parameters neg_airspeed_model, dt := 0.01,
            A_matrix := [[- 1, 0, 0, 0], [0, 0, 0, 0], [0, 0, 0, 0], [0, 0, 0, 0]],
            state_mgr := (state_mgr new_simulator)\<lparr>sm_ind_states := [],
               sm_dep_states := [''airspeed'', ''p'', ''q'', ''r''], sm_dt := 0.01\<rparr>\<rparr>)"
  by (simp add: load_def neg_airspeed_model_def mkparam_def reshape_def ebind_def
      Let_def sm_defs upt_conv_Cons)

lemma neg_airspeed_gsv:
  "gen_state_vector ((state_mgr new_simulator)\<lparr>sm_ind_states := [],
               sm_dep_states := [''airspeed'', ''p'', ''q'', ''r''], sm_dt := 0.01\<rparr>)
      (mf_parameters neg_airspeed_model) = Inr [10, 0, 0, 0]"
  by (simp add: gen_state_vector_def state_value_def ebind_def new_simulator_state_mgr
      new_state_manager_def neg_airspeed_model_def mkparam_def)

lemma neg_airspeed_update:
  "\<exists>s3. update gen_state_vector step_rnd
      (new_simulator\<lparr>params := mf_parameters neg_airspeed_model, dt := 0.01,
            A_matrix := [[- 1, 0, 0, 0], [0, 0, 0, 0], [0, 0, 0, 0], [0, 0, 0, 0]],
            state_mgr := (state_mgr new_simulator)\<lparr>sm_ind_states := [],
               sm_dep_states := [''airspeed'', ''p'', ''q'', ''r''], sm_dt := 0.01\<rparr>\<rparr>)
       = Inr (store_sample (update_position (update_attitude s3)))
     \<and> airspeed_mps s3 = - 10"
proof -
  let ?s = "new_simulator\<lparr>params := mf_parameters neg_airspeed_model, dt := 0.01,
            A_matrix := [[- 1, 0, 0, 0], [0, 0, 0, 0], [0, 0, 0, 0], [0, 0, 0, 0]],
            state_mgr := (state_mgr new_simulator)\<lparr>sm_ind_states := [],
               sm_dep_states := [''airspeed'', ''p'', ''q'', ''r''], sm_dt := 0.01\<rparr>\<rparr>"
  let ?result = "dep2dict (state_mgr ?s) [- 10, 0, 0, 0]"
  let ?s1 = "?s\<lparr>trand := None, airspeed_mps := - 10,
               state_mgr := set_airdata (- 10) (state_mgr ?s)\<rparr>"
  have g: "gen_state_vector (state_mgr ?s) (params ?s) = Inr [10, 0, 0, 0]"
    using neg_airspeed_gsv by simp
  have m: "matvec (A_matrix ?s) [10, 0, 0, 0] = Inr [- 10, 0, 0, 0]"
    by (simp add: matvec_def)
  have an: "add_noise (params ?s) (time ?s) step_rnd (trand ?s) [- 10, 0, 0, 0]
              = Inr ([- 10, 0, 0, 0], None)"
    by (simp add: add_noise_def neg_airspeed_model_def mkparam_def upt_conv_Cons new_time)
  have ra: "resolve_airspeed ?result = Inr (- 10)"
    by (simp add: resolve_airspeed_def lookup_def dep2dict_def)
  have rv: "resolve_velocity ?result (qbar (set_airdata (- 10) (state_mgr ?s))) ?s1 = Inr ?s1"
    by (rule resolve_velocity_none) (simp_all add: dep2dict_def)
  obtain s3 where ur: "update_rates ?result ?s1 = Inr s3"
    using update_rates_ok[of ?result 0 0 0 ?s1] by (auto simp: dep2dict_def)
  have "update gen_state_vector step_rnd ?s
          = Inr (store_sample (update_position (update_attitude s3)))"
    by (subst update_unfold[where gsv = gen_state_vector, OF g m an])
       (simp only: ra rv ur ebind_def sum.case)
  moreover have "airspeed_mps s3 = - 10"
    using update_rates_fields(1)[OF ur] by simp
  ultimately show ?thesis by blast
qed

text \<open>
  Claim C1 (evaluation at the failing input). A model file whose only effect is
  \<open>airspeed' = - airspeed\<close>: after construction and \<open>load\<close>, the first \<open>update\<close> returns
  normally, and both \<open>airspeed_mps\<close> and the airspeed entry of the sample it appends
  are \<open>-10\<close>.
\<close>

theorem update_records_negative_airspeed:
  "\<exists>s s'. load neg_airspeed_model new_simulator = Inr s
      \<and> update gen_state_vector step_rnd s = Inr s'
      \<and> airspeed_mps s' = - 10 \<and> last (data s') ! 1 = - 10"
proof -
  obtain s3 where u: "update gen_state_vector step_rnd
      (new_simulator\<lparr>params := mf_parameters neg_airspeed_model, dt := 0.01,
            A_matrix := [[- 1, 0, 0, 0], [0, 0, 0, 0], [0, 0, 0, 0], [0, 0, 0, 0]],
            state_mgr := (state_mgr new_simulator)\<lparr>sm_ind_states := [],
               sm_dep_states := [''airspeed'', ''p'', ''q'', ''r''], sm_dt := 0.01\<rparr>\<rparr>)
       = Inr (store_sample (update_position (update_attitude s3)))"
    and a: "airspeed_mps s3 = - 10"
    using neg_airspeed_update by blast
  let ?s' = "store_sample (update_position (update_attitude s3))"
  obtain smp where "data ?s' = data (update_position (update_attitude s3)) @ [smp]"
    "smp ! 1 = airspeed_mps (update_position (update_attitude s3))"
    using store_sample_data[of "update_position (update_attitude s3)"] by blast
  then have "last (data ?s') ! 1 = - 10" using a by simp
  moreover have "airspeed_mps ?s' = - 10" using a by simp
  ultimately show ?thesis using neg_airspeed_load u by blast
qed

section \<open>Attitude integration\<close>

lemma three_angle_identity:
  fixes a b c d e f :: real
  shows "(a * c * e + b * d * f)\<^sup>2 + (a * c * f - b * d * e)\<^sup>2
       + (a * d * e + b * c * f)\<^sup>2 + (b * c * e - a * d * f)\<^sup>2
       = (a\<^sup>2 + b\<^sup>2) * (c\<^sup>2 + d\<^sup>2) * (e\<^sup>2 + f\<^sup>2)"
  by (simp add: power2_eq_square algebra_simps)

lemma quat_norm_eul2quat [simp]: "quat_norm (eul2quat phi theta psi) = 1"
proof -
  have "(cos (psi / 2))\<^sup>2 + (sin (psi / 2))\<^sup>2 = 1"
       "(cos (theta / 2))\<^sup>2 + (sin (theta / 2))\<^sup>2 = 1"
       "(cos (phi / 2))\<^sup>2 + (sin (phi / 2))\<^sup>2 = 1"
    by simp_all
  then show ?thesis
    by (simp add: quat_norm_def eul2quat_def Let_def three_angle_identity)
qed




lemma ebind_Inr: "ebind m f = Inr y \<longleftrightarrow> (\<exists>x. m = Inr x \<and> f x = Inr y)"
  by (cases m) (simp_all add: ebind_def)

lemma lookup_Inr: "lookup d k = Inr v \<longleftrightarrow> d k = Some v"
  by (simp add: lookup_def split: option.splits)

lemma fdiv_Inr: "fdiv a b = Inr x \<longleftrightarrow> b \<noteq> 0 \<and> x = a / b"
  by (auto simp: fdiv_def)










lemma stage_trand [simp]:
  "trand (store_sample s) = trand s"
  "trand (update_position s) = trand s"
  "trand (update_attitude s) = trand s"
  by (simp_all add: store_sample_def update_position_def update_attitude_def Let_def
      split: prod.splits)

lemma update_rates_trand: "update_rates result s = Inr s' \<Longrightarrow> trand s' = trand s"
  by (auto simp: update_rates_def ebind_Inr Let_def split: if_splits)

lemma accel_branch_trand: "accel_branch result s = Inr s' \<Longrightarrow> trand s' = trand s"
  by (auto simp: accel_branch_def ebind_Inr Let_def)

lemma velocity_branch_trand: "velocity_branch result s = Inr s' \<Longrightarrow> trand s' = trand s"
  by (auto simp: velocity_branch_def ebind_Inr)

lemma trig_branch_trand: "trig_branch result qb s = Inr s' \<Longrightarrow> trand s' = trand s"
  by (auto simp: trig_branch_def ebind_Inr Let_def)

lemma resolve_velocity_trand: "resolve_velocity result qb s = Inr s' \<Longrightarrow> trand s' = trand s"
  using accel_branch_trand[of result s s'] velocity_branch_trand[of result s s']
    trig_branch_trand[of result qb s s']
  by (auto simp: resolve_velocity_def split: if_splits)

lemma update_trand:
  assumes "update gsv rnd s = Inr s'"
  obtains next0 nxt where
    "add_noise (params s) (time s) rnd (trand s) next0 = Inr (nxt, trand s')"
proof -
  from assms obtain next0 nxt tr asp s2 s3 where
    an: "add_noise (params s) (time s) rnd (trand s) next0 = Inr (nxt, tr)"
    and rv: "resolve_velocity (dep2dict (state_mgr s) nxt) (qbar (set_airdata asp (state_mgr s)))
              (s\<lparr>trand := tr, airspeed_mps := asp,
                 state_mgr := set_airdata asp (state_mgr s)\<rparr>) = Inr s2"
    and ur: "update_rates (dep2dict (state_mgr s) nxt) s2 = Inr s3"
    and s': "s' = store_sample (update_position (update_attitude s3))"
    by (rule update_InrD)
  have "trand s' = tr"
    using resolve_velocity_trand[OF rv] update_rates_trand[OF ur] by (simp add: s')
  with an that show thesis by blast
qed

lemma update_no_velocity_outputs:
  assumes g: "gsv (state_mgr s) (params s) = Inr state"
    and m: "matvec (A_matrix s) state = Inr next0"
    and an: "add_noise (params s) (time s) rnd (trand s) next0 = Inr (nxt, tr)"
    and asp: "dep2dict (state_mgr s) nxt ''airspeed'' = Some asp"
    and none: "dep2dict (state_mgr s) nxt ''bax'' = None"
       "dep2dict (state_mgr s) nxt ''bvx'' = None"
       "dep2dict (state_mgr s) nxt ''sin(alpha)'' = None"
       "dep2dict (state_mgr s) nxt ''ax'' = None"
    and rates: "dep2dict (state_mgr s) nxt ''p'' = Some rp"
       "dep2dict (state_mgr s) nxt ''q'' = Some rq"
       "dep2dict (state_mgr s) nxt ''r'' = Some rr"
  shows "\<exists>s3. update gsv rnd s = Inr (store_sample (update_position (update_attitude s3)))
     \<and> airspeed_mps s3 = asp \<and> rate_p s3 = rp \<and> rate_q s3 = rq \<and> rate_r s3 = rr
     \<and> ned2body s3 = ned2body s \<and> dt s3 = dt s \<and> trand s3 = tr"
proof -
  let ?result = "dep2dict (state_mgr s) nxt"
  let ?s1 = "s\<lparr>trand := tr, airspeed_mps := asp, state_mgr := set_airdata asp (state_mgr s)\<rparr>"
  have ra: "resolve_airspeed ?result = Inr asp"
    using asp by (simp add: resolve_airspeed_def lookup_def)
  have rv: "resolve_velocity ?result (qbar (set_airdata asp (state_mgr s))) ?s1 = Inr ?s1"
    by (rule resolve_velocity_none) (rule none)+
  obtain s3 where ur: "update_rates ?result ?s1 = Inr s3"
    using update_rates_ok[where result = ?result and s = ?s1, OF rates none(4)] by blast
  have "update gsv rnd s = Inr (store_sample (update_position (update_attitude s3)))"
    by (subst update_unfold[where gsv = gsv, OF g m an])
       (simp only: ra rv ur ebind_def sum.case)
  moreover have "airspeed_mps s3 = asp" "ned2body s3 = ned2body s" "dt s3 = dt s"
    using update_rates_fields(1,2,3)[OF ur] by simp_all
  moreover have "rate_p s3 = rp" "rate_q s3 = rq" "rate_r s3 = rr"
    using update_rates_fields(12,13,14)[OF ur] rates by simp_all
  moreover have "trand s3 = tr"
    using update_rates_trand[OF ur] by simp
  ultimately show ?thesis by blast
qed

lemma roll_load:
  "load roll_model new_simulator =
     Inr (new_simulator\<lparr>params := mf_parameters roll_model, dt := 0.01,
            A_matrix := [[1, 0, 0, 0], [0.1, 0, 0, 0], [0, 0, 0, 0], [0, 0, 0, 0]],
            state_mgr := (state_mgr new_simulator)\<lparr>sm_ind_states := [],
               sm_dep_states := [''airspeed'', ''p'', ''q'', ''r''], sm_dt := 0.01\<rparr>\<rparr>)"
  by (simp add: load_def roll_model_def mkparam_def reshape_def ebind_def
      Let_def sm_defs upt_conv_Cons)

lemma roll_gsv:
  "gen_state_vector ((state_mgr new_simulator)\<lparr>sm_ind_states := [],
               sm_dep_states := [''airspeed'', ''p'', ''q'', ''r''], sm_dt := 0.01\<rparr>)
      (mf_parameters roll_model) = Inr [10, 0, 0, 0]"
  by (simp add: gen_state_vector_def state_value_def ebind_def new_simulator_state_mgr
      new_state_manager_def roll_model_def mkparam_def)


lemma roll_update:
  "\<exists>s3. update gen_state_vector step_rnd
      (new_simulator\<lparr>params := mf_parameters roll_model, dt := 0.01,
            A_matrix := [[1, 0, 0, 0], [0.1, 0, 0, 0], [0, 0, 0, 0], [0, 0, 0, 0]],
            state_mgr := (state_mgr new_simulator)\<lparr>sm_ind_states := [],
               sm_dep_states := [''airspeed'', ''p'', ''q'', ''r''], sm_dt := 0.01\<rparr>\<rparr>)
       = Inr (store_sample (update_position (update_attitude s3)))
     \<and> rate_p s3 = 1 \<and> rate_q s3 = 0 \<and> rate_r s3 = 0"
proof -
  let ?s = "new_simulator\<lparr>params := mf_parameters roll_model, dt := 0.01,
            A_matrix := [[1, 0, 0, 0], [0.1, 0, 0, 0], [0, 0, 0, 0], [0, 0, 0, 0]],
            state_mgr := (state_mgr new_simulator)\<lparr>sm_ind_states := [],
               sm_dep_states := [''airspeed'', ''p'', ''q'', ''r''], sm_dt := 0.01\<rparr>\<rparr>"
  have g: "gen_state_vector (state_mgr ?s) (params ?s) = Inr [10, 0, 0, 0]"
    using roll_gsv by simp
  have m: "matvec (A_matrix ?s) [10, 0, 0, 0] = Inr [10, 1, 0, 0]"
    by (simp add: matvec_def)
  have an: "add_noise (params ?s) (time ?s) step_rnd (trand ?s) [10, 1, 0, 0]
              = Inr ([10, 1, 0, 0], None)"
    by (simp add: add_noise_def roll_model_def mkparam_def upt_conv_Cons new_time)
  let ?result = "dep2dict (state_mgr ?s) [10, 1, 0, 0]"
  have r1: "?result ''airspeed'' = Some 10" by (simp add: dep2dict_def)
  have r2: "?result ''bax'' = None" by (simp add: dep2dict_def)
  have r3: "?result ''bvx'' = None" by (simp add: dep2dict_def)
  have r4: "?result ''sin(alpha)'' = None" by (simp add: dep2dict_def)
  have r5: "?result ''ax'' = None" by (simp add: dep2dict_def)
  have r6: "?result ''p'' = Some 1" by (simp add: dep2dict_def)
  have r7: "?result ''q'' = Some 0" by (simp add: dep2dict_def)
  have r8: "?result ''r'' = Some 0" by (simp add: dep2dict_def)
  from update_no_velocity_outputs[where gsv = gen_state_vector and s = ?s,
        OF g m an r1 r2 r3 r4 r5 r6 r7 r8]
  obtain s3 where "update gen_state_vector step_rnd ?s
        = Inr (store_sample (update_position (update_attitude s3)))"
      "rate_p s3 = 1" "rate_q s3 = 0" "rate_r s3 = 0"
    by (elim exE conjE)
  then show ?thesis
    by (intro exI[of _ s3] conjI)
qed



section \<open>The phase array\<close>









section \<open>Velocity resolution\<close>

lemma floor_forward_ge: "0.1 \<le> floor_forward x"
  by (simp add: floor_forward_def)

lemma cone_clamp_bound: "0 < x \<Longrightarrow> \<bar>cone_clamp x y\<bar> \<le> 0.1 * x"
  by (auto simp: cone_clamp_def abs_mult sgn_if)

lemma norm3_pos: "0 < x \<Longrightarrow> 0 < norm3 x y z"
proof -
  assume "0 < x"
  then have "0 < x\<^sup>2" by simp
  moreover have "0 \<le> y\<^sup>2" "0 \<le> z\<^sup>2" by simp_all
  ultimately have "0 < x\<^sup>2 + y\<^sup>2 + z\<^sup>2" by linarith
  then show ?thesis by (simp add: norm3_def)
qed

lemma norm3_scale: "norm3 (x * k) (y * k) (z * k) = \<bar>k\<bar> * norm3 x y z"
proof -
  have "(x * k)\<^sup>2 + (y * k)\<^sup>2 + (z * k)\<^sup>2 = k\<^sup>2 * (x\<^sup>2 + y\<^sup>2 + z\<^sup>2)"
    by (simp add: power2_eq_square algebra_simps)
  then show ?thesis
    by (simp add: norm3_def real_sqrt_mult)
qed

lemma accel_branch_eq:
  fixes s :: simulator and a b c :: real
  assumes "result ''bax'' = Some a" "result ''bay'' = Some b" "result ''baz'' = Some c"
  defines "x \<equiv> floor_forward (bvx s + a * dt s)"
  defines "y \<equiv> cone_clamp x (bvy s + b * dt s)"
  defines "z \<equiv> cone_clamp x (bvz s + c * dt s)"
  defines "k \<equiv> airspeed_mps s / norm3 x y z"
  shows "accel_branch result s =
     Inr (s\<lparr>bvx := x * k, bvy := y * k, bvz := z * k,
            state_mgr := set_body_velocity (x * k) (y * k) (z * k) (state_mgr s),
            alpha := atan2 (z * k) (x * k), beta := atan2 (- (y * k)) (x * k)\<rparr>)"
proof -
  have lk: "lookup result ''bax'' = Inr a" "lookup result ''bay'' = Inr b"
    "lookup result ''baz'' = Inr c"
    using assms(1-3) by (simp_all add: lookup_def)
  have x': "(if bvx s + a * dt s < 0.1 then 0.1 else bvx s + a * dt s) = x"
    by (simp add: x_def floor_forward_def max_def)
  have xpos: "0 < x" using floor_forward_ge[of "bvx s + a * dt s"] by (simp add: x_def)
  have fd: "\<And>v. fdiv v x = Inr (v / x)"
    using xpos by (simp add: fdiv_def)
  have cc: "\<And>v. (if \<bar>v / x\<bar> > 0.1 then sgn v * \<bar>x\<bar> * 0.1 else v) = cone_clamp x v"
    using xpos by (simp add: cone_clamp_def abs_divide pos_less_divide_eq mult.commute)
  have y': "(if \<bar>(bvy s + b * dt s) / x\<bar> > 0.1 then sgn (bvy s + b * dt s) * \<bar>x\<bar> * 0.1
             else bvy s + b * dt s) = y"
    by (simp only: cc y_def)
  have z': "(if \<bar>(bvz s + c * dt s) / x\<bar> > 0.1 then sgn (bvz s + c * dt s) * \<bar>x\<bar> * 0.1
             else bvz s + c * dt s) = z"
    by (simp only: cc z_def)
  have fk: "fdiv (airspeed_mps s) (norm3 x y z) = Inr k"
    using norm3_pos[OF xpos, of y z] by (simp add: fdiv_def k_def)
  show ?thesis
    unfolding accel_branch_def
    by (simp only: lk ebind_def sum.case Let_def x' fd y' z' fk)
qed

lemma norm3_4_3: "norm3 4 3 0 = 5"
  by (simp add: norm3_def real_sqrt_unique)

lemma velocity_branch_eq:
  assumes "result ''bvx'' = Some x" "result ''bvy'' = Some y" "result ''bvz'' = Some z"
  shows "velocity_branch result s =
     Inr (s\<lparr>bvx := x, bvy := y, bvz := z,
            state_mgr := set_body_velocity x y z (state_mgr s),
            alpha := atan2 z x, beta := atan2 (- y) x\<rparr>)"
  using assms by (simp add: velocity_branch_def ebind_def lookup_def)

lemma clamp_unit_ifs:
  "(if (if v > 1 then 1 else v) < - 1 then - 1 else (if v > 1 then 1 else v)) = clamp_unit v"
  by (auto simp: clamp_unit_def max_def min_def)

lemma clamp_angle_ifs:
  "(if (if a > 25 * d2r then 25 * d2r else a) < - (25 * d2r) then - (25 * d2r)
    else (if a > 25 * d2r then 25 * d2r else a)) = clamp_angle a"
  by (auto simp: clamp_angle_def max_def min_def)

lemma asin_clamp_unit: "asin (clamp_unit v) = Inr (arcsin (clamp_unit v))"
  by (auto simp: asin_def clamp_unit_def max_def min_def)

lemma trig_branch_eq:
  fixes s :: simulator and ra rb qb :: real
  assumes "result ''sin(alpha)'' = Some ra" "result ''sin(beta)'' = Some rb" "qb \<noteq> 0"
  defines "a2 \<equiv> clamp_angle (arcsin (clamp_unit (ra / qb)))"
  defines "b2 \<equiv> clamp_angle (arcsin (clamp_unit (rb / qb)))"
  shows "trig_branch result qb s =
     Inr (s\<lparr>bvx := cos a2 * airspeed_mps s, bvy := sin b2 * airspeed_mps s,
            bvz := sin a2 * airspeed_mps s,
            state_mgr := set_body_velocity (cos a2 * airspeed_mps s) (sin b2 * airspeed_mps s)
                (sin a2 * airspeed_mps s) ((state_mgr s)\<lparr>sm_alpha := a2, sm_beta := b2\<rparr>)\<rparr>)"
proof -
  have lk: "lookup result ''sin(alpha)'' = Inr ra" "lookup result ''sin(beta)'' = Inr rb"
    using assms(1,2) by (simp_all add: lookup_def)
  have fd: "\<And>v. fdiv v qb = Inr (v / qb)"
    using assms(3) by (simp add: fdiv_def)
  show ?thesis
    unfolding trig_branch_def a2_def b2_def
    by (simp only: lk fd ebind_def sum.case Let_def clamp_unit_ifs asin_clamp_unit
        clamp_angle_ifs)
qed

lemma update_body_velocity:
  assumes "update gsv rnd s = Inr s'"
  shows "\<exists>nxt tr asp s2.
      resolve_velocity (dep2dict (state_mgr s) nxt) (qbar (set_airdata asp (state_mgr s)))
        (s\<lparr>trand := tr, airspeed_mps := asp, state_mgr := set_airdata asp (state_mgr s)\<rparr>)
        = Inr s2
      \<and> bvx s' = bvx s2 \<and> bvy s' = bvy s2 \<and> bvz s' = bvz s2"
proof -
  from assms obtain nxt tr asp s2 s3 where
    rv: "resolve_velocity (dep2dict (state_mgr s) nxt) (qbar (set_airdata asp (state_mgr s)))
              (s\<lparr>trand := tr, airspeed_mps := asp,
                 state_mgr := set_airdata asp (state_mgr s)\<rparr>) = Inr s2"
    and ur: "update_rates (dep2dict (state_mgr s) nxt) s2 = Inr s3"
    and s': "s' = store_sample (update_position (update_attitude s3))"
    by (rule update_InrD)
  have "bvx s' = bvx s2" "bvy s' = bvy s2" "bvz s' = bvz s2"
    using update_rates_fields(4,5,6)[OF ur] by (simp_all add: s')
  with rv show ?thesis by blast
qed

text \<open>
  Claim C5, as amended. The body velocity that \<open>update\<close> ends with is the one its
  \<open>if\<close>/\<open>elif\<close> chain resolves, in this order. (a) With a \<open>bax\<close> output and an
  \<open>airspeed\<close> output both present: integrate \<open>bv += a * dt\<close>, floor the forward
  component at 0.1, clamp the lateral and the vertical component to a tenth of the
  forward one, and rescale the vector to the resolved airspeed; the divisions of this
  branch never fail. (b) Otherwise, with a \<open>bvx\<close> output: the velocity outputs as they
  are; this is also the branch taken when acceleration outputs are present without an
  airspeed output. (c) Otherwise, with a \<open>sin(alpha)\<close> output: each sine output divided
  by \<open>qbar\<close> is clamped to \<open>[-1, 1]\<close> before the inverse sine, the angles are clamped to
  25 degrees, and the velocity is rebuilt from the airspeed and the angles.
\<close>

theorem resolve_velocity_priority:
  "(update gsv rnd s0 = Inr s0' \<longrightarrow>
      (\<exists>nxt tr asp s2.
         resolve_velocity (dep2dict (state_mgr s0) nxt) (qbar (set_airdata asp (state_mgr s0)))
           (s0\<lparr>trand := tr, airspeed_mps := asp, state_mgr := set_airdata asp (state_mgr s0)\<rparr>)
           = Inr s2
         \<and> bvx s0' = bvx s2 \<and> bvy s0' = bvy s2 \<and> bvz s0' = bvz s2))
   \<and> (result ''bax'' = Some a \<and> result ''bay'' = Some b \<and> result ''baz'' = Some c
        \<and> result ''airspeed'' \<noteq> None \<longrightarrow>
      (\<exists>s' x y z. resolve_velocity result qb s = Inr s'
         \<and> x = floor_forward (bvx s + a * dt s)
         \<and> y = cone_clamp x (bvy s + b * dt s)
         \<and> z = cone_clamp x (bvz s + c * dt s)
         \<and> 0.1 \<le> x \<and> \<bar>y\<bar> \<le> 0.1 * x \<and> \<bar>z\<bar> \<le> 0.1 * x
         \<and> bvx s' = x * (airspeed_mps s / norm3 x y z)
         \<and> bvy s' = y * (airspeed_mps s / norm3 x y z)
         \<and> bvz s' = z * (airspeed_mps s / norm3 x y z)
         \<and> norm3 (bvx s') (bvy s') (bvz s') = \<bar>airspeed_mps s\<bar>))
   \<and> (\<not> (result ''bax'' \<noteq> None \<and> result ''airspeed'' \<noteq> None)
        \<and> result ''bvx'' = Some vx \<and> result ''bvy'' = Some vy \<and> result ''bvz'' = Some vz \<longrightarrow>
      (\<exists>s'. resolve_velocity result qb s = Inr s'
         \<and> bvx s' = vx \<and> bvy s' = vy \<and> bvz s' = vz))
   \<and> (\<not> (result ''bax'' \<noteq> None \<and> result ''airspeed'' \<noteq> None)
        \<and> result ''bvx'' = None
        \<and> result ''sin(alpha)'' = Some ra \<and> result ''sin(beta)'' = Some rb \<and> qb \<noteq> 0 \<longrightarrow>
      (\<exists>s'. resolve_velocity result qb s = Inr s'
         \<and> sm_alpha (state_mgr s') = clamp_angle (arcsin (clamp_unit (ra / qb)))
         \<and> sm_beta (state_mgr s') = clamp_angle (arcsin (clamp_unit (rb / qb)))
         \<and> bvx s' = cos (sm_alpha (state_mgr s')) * airspeed_mps s
         \<and> bvy s' = sin (sm_beta (state_mgr s')) * airspeed_mps s
         \<and> bvz s' = sin (sm_alpha (state_mgr s')) * airspeed_mps s))"
proof (intro conjI impI)
  assume "update gsv rnd s0 = Inr s0'"
  then show "\<exists>nxt tr asp s2.
         resolve_velocity (dep2dict (state_mgr s0) nxt) (qbar (set_airdata asp (state_mgr s0)))
           (s0\<lparr>trand := tr, airspeed_mps := asp, state_mgr := set_airdata asp (state_mgr s0)\<rparr>)
           = Inr s2
         \<and> bvx s0' = bvx s2 \<and> bvy s0' = bvy s2 \<and> bvz s0' = bvz s2"
    by (rule update_body_velocity)
next
  assume h: "result ''bax'' = Some a \<and> result ''bay'' = Some b \<and> result ''baz'' = Some c
        \<and> result ''airspeed'' \<noteq> None"
  define x where "x = floor_forward (bvx s + a * dt s)"
  define y where "y = cone_clamp x (bvy s + b * dt s)"
  define z where "z = cone_clamp x (bvz s + c * dt s)"
  define k where "k = airspeed_mps s / norm3 x y z"
  define s' where "s' = s\<lparr>bvx := x * k, bvy := y * k, bvz := z * k,
            state_mgr := set_body_velocity (x * k) (y * k) (z * k) (state_mgr s),
            alpha := atan2 (z * k) (x * k), beta := atan2 (- (y * k)) (x * k)\<rparr>"
  have ab: "accel_branch result s = Inr s'"
    using h accel_branch_eq[of result a b c s] by (simp add: s'_def x_def y_def z_def k_def)
  have rv: "resolve_velocity result qb s = Inr s'"
    using h ab by (simp add: resolve_velocity_def)
  have xge: "0.1 \<le> x" unfolding x_def by (rule floor_forward_ge)
  then have xpos: "0 < x" by simp
  have yb: "\<bar>y\<bar> \<le> 0.1 * x" and zb: "\<bar>z\<bar> \<le> 0.1 * x"
    using cone_clamp_bound[OF xpos] by (simp_all add: y_def z_def)
  have npos: "0 < norm3 x y z" using xpos by (rule norm3_pos)
  have "norm3 (x * k) (y * k) (z * k) = \<bar>k\<bar> * norm3 x y z" by (rule norm3_scale)
  also have "\<dots> = \<bar>airspeed_mps s\<bar>"
    using npos by (simp add: k_def abs_divide)
  finally have nrm: "norm3 (bvx s') (bvy s') (bvz s') = \<bar>airspeed_mps s\<bar>"
    by (simp add: s'_def)
  have "bvx s' = x * (airspeed_mps s / norm3 x y z)"
       "bvy s' = y * (airspeed_mps s / norm3 x y z)"
       "bvz s' = z * (airspeed_mps s / norm3 x y z)"
    by (simp_all add: s'_def k_def)
  with rv xge yb zb nrm x_def y_def z_def
  show "\<exists>s' x y z. resolve_velocity result qb s = Inr s'
         \<and> x = floor_forward (bvx s + a * dt s)
         \<and> y = cone_clamp x (bvy s + b * dt s)
         \<and> z = cone_clamp x (bvz s + c * dt s)
         \<and> 0.1 \<le> x \<and> \<bar>y\<bar> \<le> 0.1 * x \<and> \<bar>z\<bar> \<le> 0.1 * x
         \<and> bvx s' = x * (airspeed_mps s / norm3 x y z)
         \<and> bvy s' = y * (airspeed_mps s / norm3 x y z)
         \<and> bvz s' = z * (airspeed_mps s / norm3 x y z)
         \<and> norm3 (bvx s') (bvy s') (bvz s') = \<bar>airspeed_mps s\<bar>"
    by blast
next
  assume h: "\<not> (result ''bax'' \<noteq> None \<and> result ''airspeed'' \<noteq> None)
        \<and> result ''bvx'' = Some vx \<and> result ''bvy'' = Some vy \<and> result ''bvz'' = Some vz"
  then have "resolve_velocity result qb s = velocity_branch result s"
    by (auto simp: resolve_velocity_def)
  then show "\<exists>s'. resolve_velocity result qb s = Inr s'
         \<and> bvx s' = vx \<and> bvy s' = vy \<and> bvz s' = vz"
    using h velocity_branch_eq[of result vx vy vz s] by simp
next
  assume h: "\<not> (result ''bax'' \<noteq> None \<and> result ''airspeed'' \<noteq> None)
        \<and> result ''bvx'' = None
        \<and> result ''sin(alpha)'' = Some ra \<and> result ''sin(beta)'' = Some rb \<and> qb \<noteq> 0"
  then have "resolve_velocity result qb s = trig_branch result qb s"
    by (auto simp: resolve_velocity_def)
  then show "\<exists>s'. resolve_velocity result qb s = Inr s'
         \<and> sm_alpha (state_mgr s') = clamp_angle (arcsin (clamp_unit (ra / qb)))
         \<and> sm_beta (state_mgr s') = clamp_angle (arcsin (clamp_unit (rb / qb)))
         \<and> bvx s' = cos (sm_alpha (state_mgr s')) * airspeed_mps s
         \<and> bvy s' = sin (sm_beta (state_mgr s')) * airspeed_mps s
         \<and> bvz s' = sin (sm_alpha (state_mgr s')) * airspeed_mps s"
    using h trig_branch_eq[of result ra rb qb s] by (simp add: set_body_velocity_def)
qed

lemma staged_fields:
  "bvx staged_simulator = 0" "bvy staged_simulator = 0" "bvz staged_simulator = 0"
  "dt staged_simulator = 1 / 100" "airspeed_mps staged_simulator = 10"
  by (simp_all add: staged_simulator_def new_simulator_def blank_simulator_def reset_def Let_def)

lemma clamp_angle_zero: "clamp_angle 0 = 0"
  by (simp add: clamp_angle_def d2r_def)

theorem resolve_velocity_priority_witness:
  "(\<exists>s1 s2. load roll_model new_simulator = Inr s1
       \<and> update gen_state_vector step_rnd s1 = Inr s2
       \<and> (\<exists>nxt tr asp s3.
             resolve_velocity (dep2dict (state_mgr s1) nxt)
               (qbar (set_airdata asp (state_mgr s1)))
               (s1\<lparr>trand := tr, airspeed_mps := asp,
                   state_mgr := set_airdata asp (state_mgr s1)\<rparr>) = Inr s3
             \<and> bvx s2 = bvx s3 \<and> bvy s2 = bvy s3 \<and> bvz s2 = bvz s3))
   \<and> (\<exists>s'. resolve_velocity accel_outputs (245 / 4) staged_simulator = Inr s'
         \<and> bvx s' = 10 \<and> bvy s' = 0 \<and> bvz s' = 0
         \<and> norm3 (bvx s') (bvy s') (bvz s') = 10)
   \<and> (\<exists>s'. resolve_velocity velocity_outputs (245 / 4) staged_simulator = Inr s'
         \<and> bvx s' = 4 \<and> bvy s' = 3 \<and> bvz s' = 0)
   \<and> (\<exists>s'. resolve_velocity trig_outputs (245 / 4) staged_simulator = Inr s'
         \<and> sm_alpha (state_mgr s') = 0 \<and> sm_beta (state_mgr s') = 0
         \<and> bvx s' = 10 \<and> bvy s' = 0 \<and> bvz s' = 0)"
proof -
  note thm0 = resolve_velocity_priority
  have u: "\<exists>s1 s2. load roll_model new_simulator = Inr s1
       \<and> update gen_state_vector step_rnd s1 = Inr s2
       \<and> (\<exists>nxt tr asp s3.
             resolve_velocity (dep2dict (state_mgr s1) nxt)
               (qbar (set_airdata asp (state_mgr s1)))
               (s1\<lparr>trand := tr, airspeed_mps := asp,
                   state_mgr := set_airdata asp (state_mgr s1)\<rparr>) = Inr s3
             \<and> bvx s2 = bvx s3 \<and> bvy s2 = bvy s3 \<and> bvz s2 = bvz s3)"
  proof -
    obtain s1 where l: "load roll_model new_simulator = Inr s1"
      and s1: "s1 = new_simulator\<lparr>params := mf_parameters roll_model, dt := 0.01,
            A_matrix := [[1, 0, 0, 0], [0.1, 0, 0, 0], [0, 0, 0, 0], [0, 0, 0, 0]],
            state_mgr := (state_mgr new_simulator)\<lparr>sm_ind_states := [],
               sm_dep_states := [''airspeed'', ''p'', ''q'', ''r''], sm_dt := 0.01\<rparr>\<rparr>"
      using roll_load by simp
    obtain s2 where up: "update gen_state_vector step_rnd s1 = Inr s2"
      using roll_update unfolding s1 by auto
    from thm0[where gsv = gen_state_vector and rnd = step_rnd and ?s0.0 = s1 and s0' = s2,
        THEN conjunct1, THEN mp, OF up]
    have "\<exists>nxt tr asp s3.
             resolve_velocity (dep2dict (state_mgr s1) nxt)
               (qbar (set_airdata asp (state_mgr s1)))
               (s1\<lparr>trand := tr, airspeed_mps := asp,
                   state_mgr := set_airdata asp (state_mgr s1)\<rparr>) = Inr s3
             \<and> bvx s2 = bvx s3 \<and> bvy s2 = bvy s3 \<and> bvz s2 = bvz s3"
      .
    with l up show ?thesis by blast
  qed
  have a: "\<exists>s'. resolve_velocity accel_outputs (245 / 4) staged_simulator = Inr s'
         \<and> bvx s' = 10 \<and> bvy s' = 0 \<and> bvz s' = 0
         \<and> norm3 (bvx s') (bvy s') (bvz s') = 10"
  proof -
    have pre: "accel_outputs ''bax'' = Some 1 \<and> accel_outputs ''bay'' = Some 0
        \<and> accel_outputs ''baz'' = Some 0 \<and> accel_outputs ''airspeed'' \<noteq> None"
      by (simp add: accel_outputs_def)
    from thm0[where result = accel_outputs and a = 1 and b = 0 and c = 0
        and s = staged_simulator and qb = "245 / 4",
        THEN conjunct2, THEN conjunct1, THEN mp, OF pre]
    obtain s' x y z where r: "resolve_velocity accel_outputs (245 / 4) staged_simulator = Inr s'"
      and x: "x = floor_forward (bvx staged_simulator + 1 * dt staged_simulator)"
      and y: "y = cone_clamp x (bvy staged_simulator + 0 * dt staged_simulator)"
      and z: "z = cone_clamp x (bvz staged_simulator + 0 * dt staged_simulator)"
      and v: "bvx s' = x * (airspeed_mps staged_simulator / norm3 x y z)"
         "bvy s' = y * (airspeed_mps staged_simulator / norm3 x y z)"
         "bvz s' = z * (airspeed_mps staged_simulator / norm3 x y z)"
      and n: "norm3 (bvx s') (bvy s') (bvz s') = \<bar>airspeed_mps staged_simulator\<bar>"
      by blast
    have x': "x = 1 / 10" by (simp add: x staged_fields floor_forward_def)
    have y': "y = 0" and z': "z = 0"
      by (simp_all add: y z x' staged_fields cone_clamp_def)
    have "bvx s' = 10" "bvy s' = 0" "bvz s' = 0"
      by (simp_all add: v x' y' z' staged_fields norm3_def)
    moreover have "norm3 (bvx s') (bvy s') (bvz s') = 10"
      by (simp add: n staged_fields)
    ultimately show ?thesis using r by blast
  qed
  have b: "\<exists>s'. resolve_velocity velocity_outputs (245 / 4) staged_simulator = Inr s'
         \<and> bvx s' = 4 \<and> bvy s' = 3 \<and> bvz s' = 0"
  proof -
    have pre: "\<not> (velocity_outputs ''bax'' \<noteq> None \<and> velocity_outputs ''airspeed'' \<noteq> None)
        \<and> velocity_outputs ''bvx'' = Some 4 \<and> velocity_outputs ''bvy'' = Some 3
        \<and> velocity_outputs ''bvz'' = Some 0"
      by (simp add: velocity_outputs_def)
    from thm0[where result = velocity_outputs and vx = 4 and vy = 3 and vz = 0
        and s = staged_simulator and qb = "245 / 4",
        THEN conjunct2, THEN conjunct2, THEN conjunct1, THEN mp, OF pre]
    show ?thesis .
  qed
  have c: "\<exists>s'. resolve_velocity trig_outputs (245 / 4) staged_simulator = Inr s'
         \<and> sm_alpha (state_mgr s') = 0 \<and> sm_beta (state_mgr s') = 0
         \<and> bvx s' = 10 \<and> bvy s' = 0 \<and> bvz s' = 0"
  proof -
    have pre: "\<not> (trig_outputs ''bax'' \<noteq> None \<and> trig_outputs ''airspeed'' \<noteq> None)
        \<and> trig_outputs ''bvx'' = None
        \<and> trig_outputs ''sin(alpha)'' = Some 0 \<and> trig_outputs ''sin(beta)'' = Some 0
        \<and> (245 / 4 :: real) \<noteq> 0"
      by (simp add: trig_outputs_def)
    from thm0[where result = trig_outputs and ra = 0 and rb = 0
        and s = staged_simulator and qb = "245 / 4",
        THEN conjunct2, THEN conjunct2, THEN conjunct2, THEN mp, OF pre]
    obtain s' where r: "resolve_velocity trig_outputs (245 / 4) staged_simulator = Inr s'"
      and al: "sm_alpha (state_mgr s') = clamp_angle (arcsin (clamp_unit (0 / (245 / 4))))"
      and be: "sm_beta (state_mgr s') = clamp_angle (arcsin (clamp_unit (0 / (245 / 4))))"
      and v: "bvx s' = cos (sm_alpha (state_mgr s')) * airspeed_mps staged_simulator"
         "bvy s' = sin (sm_beta (state_mgr s')) * airspeed_mps staged_simulator"
         "bvz s' = sin (sm_alpha (state_mgr s')) * airspeed_mps staged_simulator"
      by blast
    have al0: "sm_alpha (state_mgr s') = 0" and be0: "sm_beta (state_mgr s') = 0"
      by (simp_all add: al be clamp_unit_def clamp_angle_zero)
    have "bvx s' = 10" "bvy s' = 0" "bvz s' = 0"
      by (simp_all add: v al0 be0 staged_fields)
    with r al0 be0 show ?thesis by blast
  qed
  from u a b c show ?thesis by (intro conjI)
qed

lemma accel_no_airspeed_load:
  "load accel_no_airspeed_model new_simulator =
     Inr (new_simulator\<lparr>params := mf_parameters accel_no_airspeed_model, dt := 0.01,
            A_matrix := [[0, 0, 0, 0.1, 0, 0, 0, 0, 0],
                         [0, 0, 0, 0, 0, 0, 0, 0, 0],
                         [0, 0, 0, 0, 0, 0, 0, 0, 0],
                         [0, 0, 0, 0.4, 0, 0, 0, 0, 0],
                         [0, 0, 0, 0.3, 0, 0, 0, 0, 0],
                         [0, 0, 0, 0, 0, 0, 0, 0, 0],
                         [0, 0, 0, 0, 0, 0, 0, 0, 0],
                         [0, 0, 0, 0, 0, 0, 0, 0, 0],
                         [0, 0, 0, 0, 0, 0, 0, 0, 0]],
            state_mgr := (state_mgr new_simulator)\<lparr>sm_ind_states := [],
               sm_dep_states := [''bax'', ''bay'', ''baz'', ''bvx'', ''bvy'', ''bvz'',
                                 ''p'', ''q'', ''r''],
               sm_dt := 0.01\<rparr>\<rparr>)"
  by (simp add: load_def accel_no_airspeed_model_def mkparam_def reshape_def ebind_def
      Let_def sm_defs upt_conv_Cons)

lemma accel_no_airspeed_gsv:
  "gen_state_vector ((state_mgr new_simulator)\<lparr>sm_ind_states := [],
               sm_dep_states := [''bax'', ''bay'', ''baz'', ''bvx'', ''bvy'', ''bvz'',
                                 ''p'', ''q'', ''r''],
               sm_dt := 0.01\<rparr>)
      (mf_parameters accel_no_airspeed_model) = Inr [0, 0, 0, 10, 0, 0, 0, 0, 0]"
  by (simp add: gen_state_vector_def state_value_def ebind_def new_simulator_state_mgr
      new_state_manager_def accel_no_airspeed_model_def mkparam_def)

lemma new_body_velocity: "bvx new_simulator = 0" "bvy new_simulator = 0" "bvz new_simulator = 0"
  by (simp_all add: new_simulator_def blank_simulator_def reset_def Let_def)

text \<open>
  A model with acceleration outputs and velocity outputs and no airspeed output. The
  prediction holds \<open>bax = 1\<close>, yet the step ends with the velocity outputs \<open>(4, 3, 0)\<close>
  as they are; branch (a) on the same state would have ended with a lateral component
  of 0.
\<close>

theorem accel_outputs_without_airspeed_counterexample:
  "\<exists>s s' a. load accel_no_airspeed_model new_simulator = Inr s
      \<and> gen_state_vector (state_mgr s) (params s) = Inr [0, 0, 0, 10, 0, 0, 0, 0, 0]
      \<and> matvec (A_matrix s) [0, 0, 0, 10, 0, 0, 0, 0, 0] = Inr [1, 0, 0, 4, 3, 0, 0, 0, 0]
      \<and> dep2dict (state_mgr s) [1, 0, 0, 4, 3, 0, 0, 0, 0] ''bax'' = Some 1
      \<and> update gen_state_vector step_rnd s = Inr s'
      \<and> bvx s' = 4 \<and> bvy s' = 3 \<and> bvz s' = 0
      \<and> accel_branch (dep2dict (state_mgr s) [1, 0, 0, 4, 3, 0, 0, 0, 0])
            (s\<lparr>trand := None, airspeed_mps := 5,
               state_mgr := set_airdata 5 (state_mgr s)\<rparr>) = Inr a
      \<and> bvy a = 0"
proof -
  let ?s = "new_simulator\<lparr>params := mf_parameters accel_no_airspeed_model, dt := 0.01,
            A_matrix := [[0, 0, 0, 0.1, 0, 0, 0, 0, 0],
                         [0, 0, 0, 0, 0, 0, 0, 0, 0],
                         [0, 0, 0, 0, 0, 0, 0, 0, 0],
                         [0, 0, 0, 0.4, 0, 0, 0, 0, 0],
                         [0, 0, 0, 0.3, 0, 0, 0, 0, 0],
                         [0, 0, 0, 0, 0, 0, 0, 0, 0],
                         [0, 0, 0, 0, 0, 0, 0, 0, 0],
                         [0, 0, 0, 0, 0, 0, 0, 0, 0],
                         [0, 0, 0, 0, 0, 0, 0, 0, 0]],
            state_mgr := (state_mgr new_simulator)\<lparr>sm_ind_states := [],
               sm_dep_states := [''bax'', ''bay'', ''baz'', ''bvx'', ''bvy'', ''bvz'',
                                 ''p'', ''q'', ''r''],
               sm_dt := 0.01\<rparr>\<rparr>"
  let ?nxt = "[1, 0, 0, 4, 3, 0, 0, 0, 0] :: real list"
  let ?result = "dep2dict (state_mgr ?s) ?nxt"
  let ?s1 = "?s\<lparr>trand := None, airspeed_mps := 5, state_mgr := set_airdata 5 (state_mgr ?s)\<rparr>"
  have g: "gen_state_vector (state_mgr ?s) (params ?s) = Inr [0, 0, 0, 10, 0, 0, 0, 0, 0]"
    using accel_no_airspeed_gsv by simp
  have m: "matvec (A_matrix ?s) [0, 0, 0, 10, 0, 0, 0, 0, 0] = Inr ?nxt"
    by (simp add: matvec_def)
  have an: "add_noise (params ?s) (time ?s) step_rnd (trand ?s) ?nxt = Inr (?nxt, None)"
    by (simp add: add_noise_def accel_no_airspeed_model_def mkparam_def upt_conv_Cons new_time)
  have k1: "?result ''airspeed'' = None" by (simp add: dep2dict_def)
  have k2: "?result ''bax'' = Some 1" "?result ''bay'' = Some 0" "?result ''baz'' = Some 0"
    by (simp_all add: dep2dict_def)
  have k3: "?result ''bvx'' = Some 4" "?result ''bvy'' = Some 3" "?result ''bvz'' = Some 0"
    by (simp_all add: dep2dict_def)
  have k4: "?result ''p'' = Some 0" "?result ''q'' = Some 0" "?result ''r'' = Some 0"
    "?result ''ax'' = None"
    by (simp_all add: dep2dict_def)
  have ra: "resolve_airspeed ?result = Inr 5"
    using k1 k3 by (simp add: resolve_airspeed_def lookup_def ebind_def norm3_4_3)
  define s2 where "s2 = ?s1\<lparr>bvx := 4, bvy := 3, bvz := 0,
            state_mgr := set_body_velocity 4 3 0 (state_mgr ?s1),
            alpha := atan2 0 4, beta := atan2 (- 3) 4\<rparr>"
  have vb: "velocity_branch ?result ?s1 = Inr s2"
    unfolding s2_def by (rule velocity_branch_eq) (rule k3)+
  have rv: "resolve_velocity ?result (qbar (set_airdata 5 (state_mgr ?s))) ?s1 = Inr s2"
    using k1 k3(1) vb by (simp add: resolve_velocity_def)
  obtain s3 where ur: "update_rates ?result s2 = Inr s3"
    using update_rates_ok[where result = ?result and s = s2, OF k4] by blast
  let ?s' = "store_sample (update_position (update_attitude s3))"
  have u: "update gen_state_vector step_rnd ?s = Inr ?s'"
    by (subst update_unfold[where gsv = gen_state_vector, OF g m an])
       (simp only: ra rv ur ebind_def sum.case)
  have v: "bvx ?s' = 4" "bvy ?s' = 3" "bvz ?s' = 0"
    using update_rates_fields(4,5,6)[OF ur] by (simp_all add: s2_def)
  obtain a where ab: "accel_branch ?result ?s1 = Inr a" and ay: "bvy a = 0"
    using accel_branch_eq[where result = ?result and s = ?s1, OF k2]
    by (simp add: new_body_velocity cone_clamp_def)
  show ?thesis
    by (intro exI[of _ ?s] exI[of _ ?s'] exI[of _ a] conjI)
       (fact accel_no_airspeed_load g m k2(1) u v ab ay)+
qed

section \<open>The two passes of the fitting script\<close>

lemma dt_loop_length:
  "length (dt_loop recs prev acc) = length acc + length (filter (\<lambda>r. rec_imu r \<noteq> None) recs)"
  by (induction recs arbitrary: prev acc) (auto simp: Let_def split: option.splits)

lemma train_step_cases:
  assumes "train_step is_flying gsv r t = Inr t'"
  shows "(record_empty r \<and> t' = t)
     \<or> (\<exists>t1. \<not> record_empty r \<and> feed_record r t = Inr t1
           \<and> (if is_flying (t_state_mgr t1)
               then \<exists>v. gsv (compute_body_frame_values True (t_state_mgr t1)) = Inr v
                      \<and> traindata t' = traindata t1 @ [v]
               else t' = t1))"
proof (cases "record_empty r")
  case True
  then show ?thesis using assms by (simp add: train_step_def)
next
  case False
  then obtain t1 where f: "feed_record r t = Inr t1"
    and rest: "(if is_flying (t_state_mgr t1)
             then (let sm1 = compute_body_frame_values True (t_state_mgr t1)
                   in ebind (gsv sm1) (\<lambda>state.
                        Inr (t1\<lparr>t_state_mgr := sm1, traindata := traindata t1 @ [state]\<rparr>)))
             else Inr t1) = Inr t'"
    using assms by (auto simp: train_step_def ebind_Inr)
  show ?thesis
  proof (cases "is_flying (t_state_mgr t1)")
    case True
    then obtain v where "gsv (compute_body_frame_values True (t_state_mgr t1)) = Inr v"
      "t' = t1\<lparr>t_state_mgr := compute_body_frame_values True (t_state_mgr t1),
               traindata := traindata t1 @ [v]\<rparr>"
      using rest by (auto simp: Let_def ebind_Inr)
    then show ?thesis using False f True by auto
  next
    case nf: False
    then have "t' = t1" using rest by simp
    then show ?thesis using False f nf by auto
  qed
qed

lemma feed_record_traindata:
  "feed_record r t = Inr t1 \<Longrightarrow> traindata t1 = traindata t"
  by (auto simp: feed_record_def Let_def split: option.splits prod.splits)

lemma training_pass_never_flying:
  assumes "\<forall>sm. \<not> is_flying sm"
  shows "training_pass is_flying gsv recs t = Inr t' \<Longrightarrow> traindata t' = traindata t"
proof (induction recs arbitrary: t)
  case Nil
  then show ?case by simp
next
  case (Cons r recs)
  from Cons.prems obtain t1 where st: "train_step is_flying gsv r t = Inr t1"
    and rest: "training_pass is_flying gsv recs t1 = Inr t'"
    by (auto simp: ebind_Inr)
  have "traindata t1 = traindata t"
    using train_step_cases[OF st] assms feed_record_traindata[of r t] by auto
  then show ?case using Cons.IH[OF rest] by simp
qed

text \<open>
  Claim C2, as amended. The dt-estimation pass applies no gate: every record with an
  \<open>imu\<close> group adds one entry to \<open>dt_data\<close>, whatever \<open>is_flying\<close> says. In the training
  pass a record appends a state vector exactly when it is not empty and \<open>is_flying\<close>
  holds on the state manager once the record's readings are stored; with a gate that no
  sample passes the training set is left as it was.
\<close>

theorem is_flying_gates_training_pass:
  "length (dt_loop recs prev acc) = length acc + length (filter (\<lambda>r. rec_imu r \<noteq> None) recs)
   \<and> (train_step is_flying gsv r t = Inr t' \<longrightarrow>
        (record_empty r \<and> traindata t' = traindata t)
        \<or> (\<exists>t1. \<not> record_empty r \<and> feed_record r t = Inr t1
              \<and> (if is_flying (t_state_mgr t1)
                  then \<exists>v. gsv (compute_body_frame_values True (t_state_mgr t1)) = Inr v
                         \<and> traindata t' = traindata t @ [v]
                  else traindata t' = traindata t)))
   \<and> (training_pass is_flying gsv recs t0 = Inr t2 \<and> (\<forall>sm. \<not> is_flying sm)
        \<longrightarrow> traindata t2 = traindata t0)"
proof (intro conjI impI)
  show "length (dt_loop recs prev acc)
          = length acc + length (filter (\<lambda>r. rec_imu r \<noteq> None) recs)"
    by (rule dt_loop_length)
next
  assume st: "train_step is_flying gsv r t = Inr t'"
  show "(record_empty r \<and> traindata t' = traindata t)
        \<or> (\<exists>t1. \<not> record_empty r \<and> feed_record r t = Inr t1
              \<and> (if is_flying (t_state_mgr t1)
                  then \<exists>v. gsv (compute_body_frame_values True (t_state_mgr t1)) = Inr v
                         \<and> traindata t' = traindata t @ [v]
                  else traindata t' = traindata t))"
    using train_step_cases[OF st] feed_record_traindata[of r t]
    by (elim disjE exE conjE) (auto split: if_splits)
next
  assume "training_pass is_flying gsv recs t0 = Inr t2 \<and> (\<forall>sm. \<not> is_flying sm)"
  then show "traindata t2 = traindata t0"
    using training_pass_never_flying[of is_flying gsv recs t0 t2] by blast
qed

lemma ground_dt: "dt_loop ground_log None [] = [0, 1 / 100]"
  by (simp add: ground_log_def imu_only_def Let_def)

lemma ground_estimate: "estimate_dt ground_log = Some (1 / 200)"
  by (simp add: estimate_dt_def ground_dt median_def round4_def Let_def)

lemma imu_only_step:
  assumes "sm_airspeed_mps (t_state_mgr t) < th"
  shows "\<exists>t1. train_step (airspeed_gate th) gsv (imu_only x) t = Inr t1
      \<and> traindata t1 = traindata t
      \<and> sm_airspeed_mps (t_state_mgr t1) = sm_airspeed_mps (t_state_mgr t)"
proof -
  obtain t1 where f: "feed_record (imu_only x) t = Inr t1"
    and a: "sm_airspeed_mps (t_state_mgr t1) = sm_airspeed_mps (t_state_mgr t)"
    and d: "traindata t1 = traindata t"
    by (cases "navpt t"; cases "nav_bias (the (navpt t))")
       (auto simp: feed_record_def imu_only_def Let_def set_time_def set_gyros_def
          split: prod.splits)
  have ne: "\<not> record_empty (imu_only x)"
    by (simp add: record_empty_def imu_only_def)
  have "train_step (airspeed_gate th) gsv (imu_only x) t = Inr t1"
    using assms a by (simp add: train_step_def ne f ebind_def airspeed_gate_def)
  with a d show ?thesis by blast
qed

text \<open>
  Two records with an \<open>imu\<close> group and no airspeed reading, so that a gate on airspeed
  holds at neither: both contribute to \<open>dt_data\<close> and to the median, and the training
  pass appends nothing.
\<close>

theorem dt_estimate_ungated_counterexample:
  "dt_loop ground_log None [] = [0, 1 / 100]
   \<and> estimate_dt ground_log = Some (1 / 200)
   \<and> (\<exists>t'. training_pass (airspeed_gate 5) gen_state_vector_plain ground_log
               (start_trainer (1 / 200)) = Inr t'
          \<and> traindata t' = [])"
proof -
  have a0: "sm_airspeed_mps (t_state_mgr (start_trainer (1 / 200))) < 5"
    and d0: "traindata (start_trainer (1 / 200)) = []"
    by (simp_all add: start_trainer_def new_trainer_def new_state_manager_def set_dt_def
        set_state_names_def)
  obtain t1 where s1: "train_step (airspeed_gate 5) gen_state_vector_plain (imu_only 0)
        (start_trainer (1 / 200)) = Inr t1"
    and d1: "traindata t1 = []" and a1: "sm_airspeed_mps (t_state_mgr t1) < 5"
    using imu_only_step[OF a0, of gen_state_vector_plain 0] a0 d0 by auto
  obtain t2 where s2: "train_step (airspeed_gate 5) gen_state_vector_plain (imu_only 0.01) t1
        = Inr t2"
    and d2: "traindata t2 = []"
    using imu_only_step[OF a1, of gen_state_vector_plain "0.01"] d1 by auto
  have "training_pass (airspeed_gate 5) gen_state_vector_plain ground_log
               (start_trainer (1 / 200)) = Inr t2"
    using s1 s2 by (simp add: ground_log_def ebind_def)
  with d2 ground_dt ground_estimate show ?thesis by blast
qed

lemma air_only_feed:
  "feed_record (air_only kt) t =
     Inr (t\<lparr>t_state_mgr := set_airdata (kt * kt2mps) (t_state_mgr t),
            wind_ned := Some (0, 0, 0)\<rparr>)"
  by (simp add: feed_record_def air_only_def Let_def)

lemma fit_vector_exists:
  assumes "sm_ind_states sm = independent_states" "sm_dep_states sm = dependent_states"
  shows "\<exists>v. gen_state_vector_plain sm = Inr v"
  using assms
  by (simp add: gen_state_vector_plain_def gen_state_vector_def state_value_def ebind_def
      independent_states_def dependent_states_def)

lemma compute_body_frame_values_names:
  "sm_ind_states (compute_body_frame_values b sm) = sm_ind_states sm"
  "sm_dep_states (compute_body_frame_values b sm) = sm_dep_states sm"
  by (simp_all add: compute_body_frame_values_def Let_def split: prod.splits)

lemma air_only_step:
  "\<exists>t'. train_step (airspeed_gate 5) gen_state_vector_plain (air_only 40)
          (start_trainer (1 / 100)) = Inr t'"
proof -
  let ?t = "start_trainer (1 / 100)"
  let ?t1 = "?t\<lparr>t_state_mgr := set_airdata (40 * kt2mps) (t_state_mgr ?t),
                 wind_ned := Some (0, 0, 0)\<rparr>"
  have ne: "\<not> record_empty (air_only 40)"
    by (simp add: record_empty_def air_only_def)
  have fly: "airspeed_gate 5 (t_state_mgr ?t1)"
    by (simp add: airspeed_gate_def set_airdata_def kt2mps_def)
  have names: "sm_ind_states (t_state_mgr ?t1) = independent_states"
    "sm_dep_states (t_state_mgr ?t1) = dependent_states"
    by (simp_all add: start_trainer_def new_trainer_def set_airdata_def set_dt_def
        set_state_names_def)
  obtain v where v: "gen_state_vector_plain (compute_body_frame_values True (t_state_mgr ?t1))
      = Inr v"
    using fit_vector_exists[of "compute_body_frame_values True (t_state_mgr ?t1)"] names
    by (auto simp: compute_body_frame_values_names)
  show ?thesis
    unfolding train_step_def
    by (simp only: ne if_False air_only_feed ebind_def sum.case fly if_True Let_def v) blast
qed

lemma imu_only_grounded_step:
  "\<exists>t1. train_step grounded gsv (imu_only x) t = Inr t1 \<and> traindata t1 = traindata t"
proof -
  obtain t1 where f: "feed_record (imu_only x) t = Inr t1"
    and d: "traindata t1 = traindata t"
    by (cases "navpt t"; cases "nav_bias (the (navpt t))")
       (auto simp: feed_record_def imu_only_def Let_def set_time_def set_gyros_def
          split: prod.splits)
  have ne: "\<not> record_empty (imu_only x)"
    by (simp add: record_empty_def imu_only_def)
  have "train_step grounded gsv (imu_only x) t = Inr t1"
    by (simp add: train_step_def ne f ebind_def grounded_def)
  with d show ?thesis by blast
qed

theorem is_flying_gates_training_pass_witness:
  "length (dt_loop ground_log None []) = 2
   \<and> (\<exists>t' v. train_step (airspeed_gate 5) gen_state_vector_plain (air_only 40)
                 (start_trainer (1 / 100)) = Inr t'
          \<and> airspeed_gate 5 (set_airdata (40 * kt2mps) (t_state_mgr (start_trainer (1 / 100))))
          \<and> traindata t' = [v])
   \<and> (\<exists>t2. training_pass grounded gen_state_vector_plain ground_log
               (start_trainer (1 / 200)) = Inr t2
          \<and> traindata t2 = [])"
proof -
  note main = is_flying_gates_training_pass
  have c1: "length (dt_loop ground_log None []) = 2"
    using main[where recs = ground_log and prev = None and acc = "[]", THEN conjunct1]
    by (simp add: ground_log_def imu_only_def)
  have c2: "\<exists>t' v. train_step (airspeed_gate 5) gen_state_vector_plain (air_only 40)
                 (start_trainer (1 / 100)) = Inr t'
          \<and> airspeed_gate 5 (set_airdata (40 * kt2mps) (t_state_mgr (start_trainer (1 / 100))))
          \<and> traindata t' = [v]"
  proof -
    obtain t' where st: "train_step (airspeed_gate 5) gen_state_vector_plain (air_only 40)
          (start_trainer (1 / 100)) = Inr t'"
      using air_only_step by blast
    have ne: "\<not> record_empty (air_only 40)"
      by (simp add: record_empty_def air_only_def)
    have fly: "airspeed_gate 5 (set_airdata (40 * kt2mps) (t_state_mgr (start_trainer (1 / 100))))"
      by (simp add: airspeed_gate_def set_airdata_def kt2mps_def)
    have d0: "traindata (start_trainer (1 / 100)) = []"
      by (simp add: start_trainer_def new_trainer_def)
    from main[where is_flying = "airspeed_gate 5" and gsv = gen_state_vector_plain
        and r = "air_only 40" and t = "start_trainer (1 / 100)" and t' = t',
        THEN conjunct2, THEN conjunct1, THEN mp, OF st]
    have "\<exists>v. traindata t' = [v]"
      using ne fly d0 by (auto simp: air_only_feed)
    with st fly show ?thesis by blast
  qed
  have c3: "\<exists>t2. training_pass grounded gen_state_vector_plain ground_log
               (start_trainer (1 / 200)) = Inr t2
          \<and> traindata t2 = []"
  proof -
    obtain t1 where s1: "train_step grounded gen_state_vector_plain (imu_only 0)
        (start_trainer (1 / 200)) = Inr t1"
      using imu_only_grounded_step by blast
    obtain t2 where s2: "train_step grounded gen_state_vector_plain (imu_only 0.01) t1 = Inr t2"
      using imu_only_grounded_step by blast
    have tp: "training_pass grounded gen_state_vector_plain ground_log
               (start_trainer (1 / 200)) = Inr t2"
      using s1 s2 by (simp add: ground_log_def ebind_def)
    have ng: "\<forall>sm. \<not> grounded sm" by (simp add: grounded_def)
    have "traindata t2 = traindata (start_trainer (1 / 200))"
      using main[where is_flying = grounded and gsv = gen_state_vector_plain
        and recs = ground_log and ?t0.0 = "start_trainer (1 / 200)" and ?t2.0 = t2,
        THEN conjunct2, THEN conjunct2, THEN mp] tp ng
      by blast
    then have "traindata t2 = []"
      by (simp add: start_trainer_def new_trainer_def)
    with tp show ?thesis by blast
  qed
  from c1 c2 c3 show ?thesis by (intro conjI)
qed

end
